theory Spec2Isabelle
  imports Complex_Main "HOL-Library.Log_Nat"
begin

section \<open>The persistent store\<close>

text \<open>
  The services keep their data in relational tables reached through SQL statements.
  Each table is modelled by its rows. Tables that the code inserts into without any
  check for an existing row (\<open>poker_tables\<close>, \<open>poker_players\<close>, \<open>poker_hands\<close>,
  \<open>sports_parlays\<close>, \<open>parlay_legs\<close>, \<open>transactions\<close>) are lists of rows in insertion
  order: \<open>SELECT ... WHERE\<close> is a \<open>filter\<close>, \<open>rows[0]\<close> is the first match,
  \<open>UPDATE ... WHERE\<close> rewrites every matching row. \<open>user_balances\<close> is keyed by the
  user identifier and \<open>sports_events\<close> by the event identifier (the upsert's conflict
  target), so both are maps.

  Numbers are real numbers. Comparisons are exact. The arithmetic that the database
  does on its columns (\<open>sweeps_coins + $2\<close>, \<open>total_wins + 1\<close>) is exact. The arithmetic
  that JavaScript does (\<open>bigBlind * 20\<close>, \<open>odds / 100\<close>, \<open>potentialPayout *= ...\<close>) is the
  exact operation followed by the rounding to the nearest double, \<open>to_double\<close> below.
  A number handed to the database as a parameter is stored as it is.
  Identifiers that the code draws from the clock and the random generator
  (\<open>table_...\<close>, \<open>hand_...\<close>, \<open>parlay_...\<close>, \<open>leg_...\<close>) are parameters of the
  operations. Timestamps filled in by the database are left out.
\<close>

type_synonym user_id = nat

subsection \<open>Doubles\<close>

text \<open>
  A JavaScript number is an IEEE 754 double: 53 significant bits, the exponent of the
  leading bit between \<open>- 1022\<close> and 1023, results rounded to the nearest such number
  and, halfway between two, to the one with an even last bit. \<open>double_exponent x\<close> is
  the exponent \<open>e\<close> of the leading bit of \<open>x\<close> (\<open>2 ^ e \<le> \<bar>x\<bar> < 2 ^ (e + 1)\<close>),
  \<open>ulp x\<close> the distance between the doubles around \<open>x\<close> (constant below
  \<open>2 ^ (- 1022)\<close>, where the doubles are subnormal), and \<open>to_double x\<close> the multiple of
  \<open>ulp x\<close> nearest to \<open>x\<close>. What is outside the reals is not modelled: \<open>NaN\<close>, and
  \<open>Infinity\<close>, which is what JavaScript makes of a result whose rounding reaches
  \<open>2 ^ 1024\<close>; \<open>finite_double\<close> says that a value is below that bound.
\<close>

definition round_half_even :: "real \<Rightarrow> int" where
  "round_half_even y =
     (let m = \<lfloor>y\<rfloor>; r = y - of_int m
      in if r < 1 / 2 then m else if r > 1 / 2 then m + 1 else if even m then m else m + 1)"

definition double_exponent :: "real \<Rightarrow> int" where
  "double_exponent x =
     (if 1 \<le> \<bar>x\<bar> then bitlen \<lfloor>\<bar>x\<bar>\<rfloor> - 1 else - bitlen (\<lceil>1 / \<bar>x\<bar>\<rceil> - 1))"

definition ulp :: "real \<Rightarrow> real" where
  "ulp x =
     (let e = max (double_exponent x) (- 1022) - 52
      in if 0 \<le> e then 2 ^ nat e else 1 / 2 ^ nat (- e))"

definition to_double :: "real \<Rightarrow> real" where
  "to_double x = (if x = 0 then 0 else of_int (round_half_even (x / ulp x)) * ulp x)"

definition finite_double :: "real \<Rightarrow> bool" where
  "finite_double x = (\<bar>x\<bar> < 2 ^ 1024)"

datatype error =
    Error string    \<comment> \<open>\<open>throw new Error(message)\<close>\<close>
  | BuyInError real real    \<comment> \<open>\<open>Buy-in must be between ${min_buy_in} and ${max_buy_in}\<close>\<close>
  | TypeError    \<comment> \<open>reading a property of \<open>undefined\<close>\<close>

type_synonym 'a result = "error + 'a"

datatype tx_type = Bet | Win

record transaction =
  tx_user_id :: user_id
  tx_transaction_type :: tx_type
  tx_currency :: string
  tx_amount :: real
  tx_description :: string
  tx_status :: string

datatype table_status = Open | Playing | Closed

record poker_table_row =
  pt_table_id :: string
  pt_name :: string
  pt_small_blind :: real
  pt_big_blind :: real
  pt_max_players :: real
  pt_min_buy_in :: real
  pt_max_buy_in :: real
  pt_status :: table_status

record poker_player_row =
  pp_table_id :: string
  pp_user_id :: user_id
  pp_stack :: real
  pp_position :: string
  pp_is_active :: bool
  pp_total_wins :: nat

datatype hand_status = PreFlop | Flop | Turn | River | Finished

record poker_hand_row =
  ph_hand_id :: string
  ph_table_id :: string
  ph_small_blind_amount :: real
  ph_big_blind_amount :: real
  ph_pot :: real
  ph_status :: hand_status
  ph_winner_id :: "user_id option"
  ph_winning_hand :: "string option"

datatype event_status = Scheduled | InProgress | Completed | Postponed

datatype sport = Nfl | Nba | Mlb | Nhl | Ncaa

record sports_event_row =
  se_sport :: sport
  se_home_team :: string
  se_away_team :: string
  se_home_score :: real
  se_away_score :: real
  se_status :: event_status

datatype parlay_status = Pending | ParlayWon | ParlayLost | PendingResults

record sports_parlay_row =
  sp_parlay_id :: string
  sp_user_id :: user_id
  sp_total_wager :: real
  sp_potential_payout :: real
  sp_status :: parlay_status

datatype pick = Home | Away | Over | Under

datatype bet_type = Spread | Moneyline | OverUnder

datatype leg_result = LegWon | LegLost | LegPending

record parlay_leg_row =
  pl_leg_id :: string
  pl_parlay_id :: string
  pl_event_id :: string
  pl_pick :: pick
  pl_bet_type :: bet_type
  pl_odds :: real
  pl_result :: "leg_result option"    \<comment> \<open>\<open>None\<close> is SQL \<open>NULL\<close>\<close>

text \<open>The in-memory objects of the services: \<open>SportsEvent\<close>, \<open>PokerTable\<close>, \<open>PokerHand\<close>.\<close>

record SportsEvent =
  eventId :: string
  sport :: sport
  homeTeam :: string
  awayTeam :: string
  startTime :: int
  status :: event_status
  homeScore :: "real option"
  awayScore :: "real option"
  spread :: "real option"
  overUnder :: "real option"
  moneylineHome :: "real option"
  moneylineAway :: "real option"

record PokerTable =
  tableId :: string
  name :: string
  smallBlind :: real
  bigBlind :: real
  maxPlayers :: real
  currentPlayers :: nat
  table_status :: table_status
  totalPot :: real
  minBuyIn :: real
  maxBuyIn :: real

record PokerHand =
  handId :: string
  hand_tableId :: string
  buttonPosition :: nat
  smallBlindAmount :: real
  bigBlindAmount :: real
  pot :: real
  community :: "string list"
  hand_status :: hand_status

text \<open>
  The whole state: the tables of the database, and the two in-memory maps
  (\<open>activeTables\<close> of the poker service, \<open>eventCache\<close> of the sports service).
\<close>

record store =
  poker_tables :: "poker_table_row list"
  poker_players :: "poker_player_row list"
  poker_hands :: "poker_hand_row list"
  user_balances :: "user_id \<rightharpoonup> real"
  transactions :: "transaction list"
  sports_events :: "string \<rightharpoonup> sports_event_row"
  sports_parlays :: "sports_parlay_row list"
  parlay_legs :: "parlay_leg_row list"
  activeTables :: "string \<rightharpoonup> PokerTable"
  eventCache :: "string \<rightharpoonup> SportsEvent"

subsection \<open>Statements shared by the services\<close>

text \<open>
  \<open>UPDATE user_balances SET sweeps_coins = sweeps_coins + d WHERE user_id = u\<close>:
  a user without a balance row is left without one.
\<close>

definition update_balance :: "user_id \<Rightarrow> real \<Rightarrow> store \<Rightarrow> store" where
  "update_balance u d s =
     (case user_balances s u of
        None \<Rightarrow> s
      | Some b \<Rightarrow> s\<lparr>user_balances := (user_balances s)(u \<mapsto> b + d)\<rparr>)"

text \<open>\<open>INSERT INTO transactions (...) VALUES (u, type, 'SC', amount, description, 'completed')\<close>\<close>

definition log_transaction :: "user_id \<Rightarrow> tx_type \<Rightarrow> real \<Rightarrow> string \<Rightarrow> store \<Rightarrow> store" where
  "log_transaction u ty a d s =
     s\<lparr>transactions := transactions s @
        [\<lparr>tx_user_id = u, tx_transaction_type = ty, tx_currency = ''SC'', tx_amount = a,
          tx_description = d, tx_status = ''completed''\<rparr>]\<rparr>"

section \<open>The poker service\<close>

text \<open>
  \<open>PokerService\<close> reaches the database through \<open>databaseService.query\<close> and, in the
  first statement of \<open>dealHand\<close> and of \<open>completeHand\<close>, through \<open>this.pool.query\<close>.
  The class declares the members \<open>instance\<close> and \<open>activeTables\<close> only, and its
  constructor and \<open>getInstance\<close> take no argument and set no other member: \<open>this.pool\<close>
  is \<open>undefined\<close>, and reading its \<open>query\<close> raises a \<open>TypeError\<close> before any statement
  reaches the database.
\<close>

definition PokerService_pool :: "unit option" where
  "PokerService_pool = None"

definition createTable ::
  "string \<Rightarrow> string \<Rightarrow> real \<Rightarrow> real \<Rightarrow> real \<Rightarrow> store \<Rightarrow> PokerTable result \<times> store" where
  "createTable newId nm sb bb mp s =
     (let minB = to_double (bb * 20);
          maxB = to_double (bb * 500);
          row = \<lparr>pt_table_id = newId, pt_name = nm, pt_small_blind = sb, pt_big_blind = bb,
                 pt_max_players = mp, pt_min_buy_in = minB, pt_max_buy_in = maxB,
                 pt_status = Open\<rparr>;
          snapshot = \<lparr>tableId = pt_table_id row, name = pt_name row,
                      smallBlind = pt_small_blind row, bigBlind = pt_big_blind row,
                      maxPlayers = pt_max_players row, currentPlayers = 0,
                      table_status = Open, totalPot = 0,
                      minBuyIn = pt_min_buy_in row, maxBuyIn = pt_max_buy_in row\<rparr>
      in (Inr snapshot,
          s\<lparr>poker_tables := poker_tables s @ [row],
            activeTables := (activeTables s)(newId \<mapsto> snapshot)\<rparr>))"

text \<open>\<open>SELECT COUNT(*) FROM poker_players WHERE table_id = t AND is_active = TRUE\<close>\<close>

definition active_player_count :: "store \<Rightarrow> string \<Rightarrow> nat" where
  "active_player_count s t =
     length (filter (\<lambda>p. pp_table_id p = t \<and> pp_is_active p) (poker_players s))"

definition joinTable :: "string \<Rightarrow> user_id \<Rightarrow> real \<Rightarrow> store \<Rightarrow> bool result \<times> store" where
  "joinTable tid uid buyIn s =
     (case find (\<lambda>t. pt_table_id t = tid) (poker_tables s) of
        None \<Rightarrow> (Inl (Error ''Table not found''), s)
      | Some tbl \<Rightarrow>
          if buyIn < pt_min_buy_in tbl \<or> buyIn > pt_max_buy_in tbl
          then (Inl (BuyInError (pt_min_buy_in tbl) (pt_max_buy_in tbl)), s)
          else if real (active_player_count s tid) \<ge> pt_max_players tbl
          then (Inl (Error ''Table is full''), s)
          else
            (case user_balances s uid of
               None \<Rightarrow> (Inl (Error ''Insufficient balance for buy-in''), s)
             | Some b \<Rightarrow>
                 if b < buyIn then (Inl (Error ''Insufficient balance for buy-in''), s)
                 else
                   (let s1 = s\<lparr>poker_players := poker_players s @
                                [\<lparr>pp_table_id = tid, pp_user_id = uid, pp_stack = buyIn,
                                  pp_position = ''under-the-gun'', pp_is_active = True,
                                  pp_total_wins = 0\<rparr>]\<rparr>;
                        s2 = update_balance uid (- buyIn) s1;
                        s3 = log_transaction uid Bet buyIn ''Poker table buy-in'' s2
                    in (Inr True, s3))))"

text \<open>
  \<open>leaveTable\<close> starts with
  \<open>UPDATE poker_players SET is_active = FALSE WHERE table_id = t AND user_id = u RETURNING *\<close>:
  the statement matches the rows of the pair whatever their \<open>is_active\<close>, and the
  failure is raised only when it returned no row.
\<close>

definition leaveTable :: "string \<Rightarrow> user_id \<Rightarrow> real \<Rightarrow> store \<Rightarrow> bool result \<times> store" where
  "leaveTable tid uid cashOut s =
     (let returned = filter (\<lambda>p. pp_table_id p = tid \<and> pp_user_id p = uid) (poker_players s);
          s1 = s\<lparr>poker_players :=
                   map (\<lambda>p. if pp_table_id p = tid \<and> pp_user_id p = uid
                             then p\<lparr>pp_is_active := False\<rparr> else p) (poker_players s)\<rparr>
      in case returned of
           [] \<Rightarrow> (Inl (Error ''Player not found at this table''), s1)
         | _ # _ \<Rightarrow>
             (let s2 = update_balance uid cashOut s1;
                  s3 = log_transaction uid Win cashOut ''Poker table cash out'' s2
              in (Inr True, s3)))"

text \<open>
  \<open>dealHand\<close> sends its table query through \<open>this.pool\<close>, which raises the
  \<open>TypeError\<close>. What follows in the source is written out under the case of a pool:
  \<open>rows[0]\<close> of the table query is read and then its \<open>small_blind\<close> (a \<open>TypeError\<close>
  again when there is no such table), the hand is inserted and returned.
\<close>

definition dealHand :: "string \<Rightarrow> string \<Rightarrow> store \<Rightarrow> PokerHand result \<times> store" where
  "dealHand newId tid s =
     (case PokerService_pool of
        None \<Rightarrow> (Inl TypeError, s)
      | Some pool \<Rightarrow>
          (case find (\<lambda>t. pt_table_id t = tid) (poker_tables s) of
             None \<Rightarrow> (Inl TypeError, s)
           | Some tbl \<Rightarrow>
               (let smallBlindAmount = pt_small_blind tbl;
                    bigBlindAmount = pt_big_blind tbl;
                    totalPot = to_double (smallBlindAmount + bigBlindAmount);
                    row = \<lparr>ph_hand_id = newId, ph_table_id = tid,
                           ph_small_blind_amount = smallBlindAmount,
                           ph_big_blind_amount = bigBlindAmount, ph_pot = totalPot,
                           ph_status = PreFlop, ph_winner_id = None, ph_winning_hand = None\<rparr>
                in (Inr \<lparr>handId = ph_hand_id row, hand_tableId = ph_table_id row,
                         buttonPosition = 0, smallBlindAmount = smallBlindAmount,
                         bigBlindAmount = bigBlindAmount, pot = totalPot, community = [],
                         hand_status = PreFlop\<rparr>,
                    s\<lparr>poker_hands := poker_hands s @ [row]\<rparr>))))"

text \<open>
  \<open>completeHand\<close> sends its hand query through \<open>this.pool\<close>, which raises the
  \<open>TypeError\<close>. What follows in the source is written out under the case of a pool:
  the hand is marked finished whatever its status was, then \<open>hand.pot\<close> is read (a
  \<open>TypeError\<close> when the hand does not exist) and credited to the winner.
\<close>

definition completeHand :: "string \<Rightarrow> user_id \<Rightarrow> string \<Rightarrow> store \<Rightarrow> unit result \<times> store" where
  "completeHand hid winnerId winningHand s =
     (case PokerService_pool of
        None \<Rightarrow> (Inl TypeError, s)
      | Some pool \<Rightarrow>
          (let hand = find (\<lambda>h. ph_hand_id h = hid) (poker_hands s);
               s1 = s\<lparr>poker_hands :=
                        map (\<lambda>h. if ph_hand_id h = hid
                                  then h\<lparr>ph_status := Finished, ph_winner_id := Some winnerId,
                                         ph_winning_hand := Some winningHand\<rparr>
                                  else h) (poker_hands s)\<rparr>
           in case hand of
                None \<Rightarrow> (Inl TypeError, s1)
              | Some h \<Rightarrow>
                  (let p = ph_pot h;
                       s2 = update_balance winnerId p s1;
                       s3 = log_transaction winnerId Win p
                              (''Poker hand win with '' @ winningHand) s2;
                       s4 = s3\<lparr>poker_players :=
                                 map (\<lambda>q. if pp_user_id q = winnerId
                                           then q\<lparr>pp_total_wins := pp_total_wins q + 1\<rparr>
                                           else q)
                                     (poker_players s3)\<rparr>
                   in (Inr (), s4))))"

section \<open>The sports parlay service\<close>

record ParlayLeg =
  leg_legId :: string
  leg_eventId :: string
  leg_pick :: pick
  leg_betType :: bet_type
  leg_odds :: real
  leg_wager :: real
  leg_result :: "leg_result option"

record SportsParlay =
  parlay_id :: string
  user_id :: user_id
  legs :: "ParlayLeg list"
  total_wager :: real
  potential_payout :: real
  parlay_status :: parlay_status

text \<open>
  The constructor seeds the cache with \<open>mockEvents\<close>, whose start times are one to
  three days after the clock \<open>now\<close> (in milliseconds), all of them in status
  \<open>scheduled\<close>.
\<close>

definition mockEvents :: "int \<Rightarrow> SportsEvent list" where
  "mockEvents now =
     [\<lparr>eventId = ''nfl_001'', sport = Nfl, homeTeam = ''Kansas City Chiefs'',
       awayTeam = ''Buffalo Bills'', startTime = now + 2 * 24 * 60 * 60 * 1000,
       status = Scheduled, homeScore = None, awayScore = None, spread = Some (- 3.5),
       overUnder = Some 47.5, moneylineHome = Some (- 170), moneylineAway = Some 145\<rparr>,
      \<lparr>eventId = ''nba_001'', sport = Nba, homeTeam = ''Los Angeles Lakers'',
       awayTeam = ''Denver Nuggets'', startTime = now + 1 * 24 * 60 * 60 * 1000,
       status = Scheduled, homeScore = None, awayScore = None, spread = Some (- 2),
       overUnder = Some 218, moneylineHome = Some (- 115), moneylineAway = Some (- 105)\<rparr>,
      \<lparr>eventId = ''mlb_001'', sport = Mlb, homeTeam = ''New York Yankees'',
       awayTeam = ''Boston Red Sox'', startTime = now + 3 * 24 * 60 * 60 * 1000,
       status = Scheduled, homeScore = None, awayScore = None, spread = Some (- 1.5),
       overUnder = Some 8.5, moneylineHome = Some (- 140), moneylineAway = Some 120\<rparr>]"

definition initializeMockEvents :: "SportsEvent list \<Rightarrow> (string \<rightharpoonup> SportsEvent)" where
  "initializeMockEvents events =
     fold (\<lambda>event cache. cache(eventId event \<mapsto> event)) events Map.empty"

text \<open>
  The payout loop of \<open>createParlay\<close>: for each leg in order, look the event up in the
  cache (failing on the first unknown one) and multiply the running payout by
  \<open>odds / 100\<close>. Both the quotient and the product are doubles.
\<close>

fun payout_loop :: "(string \<rightharpoonup> SportsEvent) \<Rightarrow> ParlayLeg list \<Rightarrow> real \<Rightarrow> real result" where
  "payout_loop cache [] potentialPayout = Inr potentialPayout"
| "payout_loop cache (leg # rest) potentialPayout =
     (case cache (leg_eventId leg) of
        None \<Rightarrow> Inl (Error (''Event '' @ leg_eventId leg @ '' not found''))
      | Some event \<Rightarrow>
          payout_loop cache rest
            (to_double (potentialPayout * to_double (leg_odds leg / 100))))"

text \<open>The second loop of \<open>createParlay\<close>: one \<open>parlay_legs\<close> row per leg, in leg order.\<close>

definition leg_rows :: "(nat \<Rightarrow> string) \<Rightarrow> string \<Rightarrow> ParlayLeg list \<Rightarrow> parlay_leg_row list" where
  "leg_rows newLegId pid ls =
     map (\<lambda>(i, leg). \<lparr>pl_leg_id = newLegId i, pl_parlay_id = pid,
                       pl_event_id = leg_eventId leg, pl_pick = leg_pick leg,
                       pl_bet_type = leg_betType leg, pl_odds = leg_odds leg,
                       pl_result = None\<rparr>)
         (enumerate 0 ls)"

definition createParlay ::
  "string \<Rightarrow> (nat \<Rightarrow> string) \<Rightarrow> user_id \<Rightarrow> ParlayLeg list \<Rightarrow> real \<Rightarrow> store
     \<Rightarrow> SportsParlay result \<times> store" where
  "createParlay newId newLegId uid ls totalWager s =
     (if totalWager \<le> 0 then (Inl (Error ''Wager must be greater than 0''), s)
      else
        (case user_balances s uid of
           None \<Rightarrow> (Inl (Error ''Insufficient balance for parlay wager''), s)
         | Some b \<Rightarrow>
             if b < totalWager then (Inl (Error ''Insufficient balance for parlay wager''), s)
             else
               (case payout_loop (eventCache s) ls totalWager of
                  Inl e \<Rightarrow> (Inl e, s)
                | Inr potentialPayout \<Rightarrow>
                    (let s1 = s\<lparr>sports_parlays := sports_parlays s @
                                  [\<lparr>sp_parlay_id = newId, sp_user_id = uid,
                                    sp_total_wager = totalWager,
                                    sp_potential_payout = potentialPayout,
                                    sp_status = Pending\<rparr>]\<rparr>;
                         s2 = s1\<lparr>parlay_legs := parlay_legs s1 @ leg_rows newLegId newId ls\<rparr>;
                         s3 = update_balance uid (- totalWager) s2;
                         s4 = log_transaction uid Bet totalWager (''Sports parlay '' @ newId) s3
                     in (Inr \<lparr>parlay_id = newId, user_id = uid, legs = ls,
                              total_wager = totalWager, potential_payout = potentialPayout,
                              parlay_status = Pending\<rparr>,
                         s4)))))"

text \<open>
  The candidates of a resolution:
  \<open>SELECT DISTINCT sp.parlay_id, sp.user_id, sp.total_wager, sp.potential_payout
   FROM sports_parlays sp JOIN parlay_legs pl ON sp.parlay_id = pl.parlay_id
   WHERE pl.event_id = e AND sp.status = 'pending'\<close>.
  The order of the rows is the one of the tables.
\<close>

type_synonym candidate = "string \<times> user_id \<times> real \<times> real"

definition pending_parlays_for_event :: "string \<Rightarrow> store \<Rightarrow> candidate list" where
  "pending_parlays_for_event eid s =
     remdups
       [(sp_parlay_id sp, sp_user_id sp, sp_total_wager sp, sp_potential_payout sp).
          sp \<leftarrow> sports_parlays s, pl \<leftarrow> parlay_legs s,
          sp_parlay_id sp = pl_parlay_id pl,
          pl_event_id pl = eid \<and> sp_status sp = Pending]"

text \<open>
  The legs of one parlay:
  \<open>SELECT pl.*, sp.status FROM parlay_legs pl JOIN sports_parlays sp
   ON pl.parlay_id = sp.parlay_id WHERE pl.parlay_id = p\<close>.
\<close>

definition legs_of_parlay :: "string \<Rightarrow> store \<Rightarrow> parlay_leg_row list" where
  "legs_of_parlay pid s =
     [pl. pl \<leftarrow> parlay_legs s, sp \<leftarrow> sports_parlays s,
          pl_parlay_id pl = sp_parlay_id sp, pl_parlay_id pl = pid]"

text \<open>The body of the loop over the candidates.\<close>

definition resolve_parlay :: "candidate \<Rightarrow> store \<Rightarrow> store" where
  "resolve_parlay c s =
     (case c of (pid, uid, wager, payout) \<Rightarrow>
        (let rows = legs_of_parlay pid s;
             allLegsResolved = \<not> list_ex (\<lambda>leg. pl_result leg = None) rows
         in if allLegsResolved then
              (let allLegsWon = list_all (\<lambda>leg. pl_result leg = Some LegWon) rows;
                   st = (if allLegsWon then ParlayWon else ParlayLost);
                   s1 = s\<lparr>sports_parlays :=
                            map (\<lambda>sp. if sp_parlay_id sp = pid then sp\<lparr>sp_status := st\<rparr> else sp)
                                (sports_parlays s)\<rparr>
               in if st = ParlayWon
                  then log_transaction uid Win payout (''Sports parlay win '' @ pid)
                         (update_balance uid payout s1)
                  else s1)
            else s))"

definition resolveParlaysForEvent :: "string \<Rightarrow> store \<Rightarrow> store" where
  "resolveParlaysForEvent eid s =
     (case eventCache s eid of
        None \<Rightarrow> s
      | Some event \<Rightarrow>
          if status event \<noteq> Completed then s
          else fold resolve_parlay (pending_parlays_for_event eid s) s)"

text \<open>
  \<open>updateEventScore\<close> writes the scores into the cached event object, upserts the
  \<open>sports_events\<close> row (on conflict only the scores and the status are overwritten) and
  calls the resolution.
\<close>

definition updateEventScore :: "string \<Rightarrow> real \<Rightarrow> real \<Rightarrow> store \<Rightarrow> unit result \<times> store" where
  "updateEventScore eid hs as s =
     (case eventCache s eid of
        None \<Rightarrow> (Inl (Error ''Event not found''), s)
      | Some event \<Rightarrow>
          (let event' = event\<lparr>homeScore := Some hs, awayScore := Some as\<rparr>;
               s1 = s\<lparr>eventCache := (eventCache s)(eid \<mapsto> event')\<rparr>;
               row = (case sports_events s1 eid of
                        None \<Rightarrow> \<lparr>se_sport = sport event', se_home_team = homeTeam event',
                                  se_away_team = awayTeam event', se_home_score = hs,
                                  se_away_score = as, se_status = InProgress\<rparr>
                      | Some r \<Rightarrow> r\<lparr>se_home_score := hs, se_away_score := as,
                                     se_status := InProgress\<rparr>);
               s2 = s1\<lparr>sports_events := (sports_events s1)(eid \<mapsto> row)\<rparr>
           in (Inr (), resolveParlaysForEvent eid s2)))"

subsection \<open>The route in front of \<open>createParlay\<close>\<close>

text \<open>
  The handler of \<open>POST /parlays\<close>, after the token check has put the user identifier on
  the request. A field of the body is \<open>None\<close> when it is absent (for \<open>legs\<close>: absent or
  not an array).
\<close>

record parlay_request =
  body_legs :: "ParlayLeg list option"
  body_totalWager :: "real option"

datatype response =
    Status201 SportsParlay
  | Status400 string    \<comment> \<open>a message written in the handler\<close>
  | Status400_thrown error    \<comment> \<open>the message of the error thrown by the service\<close>

definition post_parlays ::
  "string \<Rightarrow> (nat \<Rightarrow> string) \<Rightarrow> user_id \<Rightarrow> parlay_request \<Rightarrow> store \<Rightarrow> response \<times> store" where
  "post_parlays newId newLegId uid req s =
     (case body_legs req of
        None \<Rightarrow> (Status400 ''Invalid parlay legs'', s)
      | Some ls \<Rightarrow>
          if length ls = 0 then (Status400 ''Invalid parlay legs'', s)
          else
            (case body_totalWager req of
               None \<Rightarrow> (Status400 ''Invalid wager amount'', s)
             | Some totalWager \<Rightarrow>
                 if totalWager = 0 \<or> totalWager \<le> 0 then (Status400 ''Invalid wager amount'', s)
                 else
                   (case createParlay newId newLegId uid ls totalWager s of
                      (Inl e, s') \<Rightarrow> (Status400_thrown e, s')
                    | (Inr parlay, s') \<Rightarrow> (Status201 parlay, s'))))"

section \<open>The sweepstakes service\<close>

text \<open>
  \<open>checkEligibility\<close> reads one row of \<open>users\<close> and appends to \<open>compliance_logs\<close>; these
  two tables are kept in a store of their own. Of \<open>date_of_birth\<close> only the year that
  \<open>getFullYear\<close> returns is used: \<open>None\<close> stands for an invalid date, whose year is
  \<open>NaN\<close>, and every comparison with \<open>NaN\<close> is false. The current year is a parameter.
  \<open>toUpperCase\<close> is modelled on the ASCII letters.
\<close>

record user_row =
  u_date_of_birth :: "int option"
  u_state :: "string option"
  u_country :: "string option"

record compliance_log =
  cl_user_id :: user_id
  cl_check_type :: string
  cl_age :: "int option"
  cl_state :: "string option"
  cl_is_eligible :: bool
  cl_reason :: "string option"

record compliance_store =
  users :: "user_id \<rightharpoonup> user_row"
  compliance_logs :: "compliance_log list"

record ComplianceCheck =
  cc_userId :: user_id
  cc_userAge :: "int option"
  cc_userState :: "string option"
  cc_isEligible :: bool
  cc_reason :: "string option"

definition toUpperCase :: "string \<Rightarrow> string" where
  "toUpperCase str =
     map (\<lambda>c. let n = (of_char c :: nat) in if 97 \<le> n \<and> n \<le> 122 then char_of (n - 32) else c) str"

definition ineligibleStates :: "string list" where
  "ineligibleStates = [''MT'', ''SC'', ''TN'', ''VT'']"

definition eligibleCountries :: "string list" where
  "eligibleCountries = [''US'', ''CA'']"

definition isAgeEligible :: "int option \<Rightarrow> bool" where
  "isAgeEligible age = (case age of None \<Rightarrow> False | Some a \<Rightarrow> a \<ge> 18)"

text \<open>\<open>!this.ineligibleStates.includes(user.state?.toUpperCase())\<close>\<close>

definition isStateEligible :: "user_row \<Rightarrow> bool" where
  "isStateEligible u =
     (case u_state u of
        None \<Rightarrow> True
      | Some st \<Rightarrow> toUpperCase st \<notin> set ineligibleStates)"

text \<open>
  \<open>this.eligibleCountries.includes(user.country?.toUpperCase() || "US")\<close>: a missing
  country, and the empty string, fall back to \<open>"US"\<close>.
\<close>

definition isCountryEligible :: "user_row \<Rightarrow> bool" where
  "isCountryEligible u =
     ((case u_country u of
         None \<Rightarrow> ''US''
       | Some c \<Rightarrow> if toUpperCase c = [] then ''US'' else toUpperCase c)
      \<in> set eligibleCountries)"

definition checkEligibility ::
  "int \<Rightarrow> user_id \<Rightarrow> compliance_store \<Rightarrow> ComplianceCheck result \<times> compliance_store" where
  "checkEligibility thisYear uid s =
     (case users s uid of
        None \<Rightarrow> (Inl (Error ''User not found''), s)
      | Some u \<Rightarrow>
          (let age = (case u_date_of_birth u of None \<Rightarrow> None | Some y \<Rightarrow> Some (thisYear - y));
               isEligible = (isAgeEligible age \<and> isStateEligible u \<and> isCountryEligible u);
               reason =
                 (if \<not> isAgeEligible age then Some ''Must be 18+ years old''
                  else if \<not> isStateEligible u
                  then Some (''Sweepstakes not available in '' @ (case u_state u of None \<Rightarrow> ''undefined'' | Some st \<Rightarrow> st))
                  else if \<not> isCountryEligible u then Some ''Only available in US and Canada''
                  else None);
               s1 = s\<lparr>compliance_logs := compliance_logs s @
                        [\<lparr>cl_user_id = uid, cl_check_type = ''eligibility'', cl_age = age,
                          cl_state = u_state u, cl_is_eligible = isEligible,
                          cl_reason = reason\<rparr>]\<rparr>
           in (Inr \<lparr>cc_userId = uid, cc_userAge = age, cc_userState = u_state u,
                    cc_isEligible = isEligible, cc_reason = reason\<rparr>,
               s1)))"

section \<open>Properties of a store and of a call\<close>

text \<open>Every stored balance is non-negative.\<close>

definition balances_nonneg :: "store \<Rightarrow> bool" where
  "balances_nonneg s = (\<forall>u b. user_balances s u = Some b \<longrightarrow> 0 \<le> b)"

text \<open>The number of active seats a user holds at a table.\<close>

definition active_seats :: "store \<Rightarrow> string \<Rightarrow> user_id \<Rightarrow> nat" where
  "active_seats s t u =
     length (filter (\<lambda>p. pp_table_id p = t \<and> pp_user_id p = u \<and> pp_is_active p)
               (poker_players s))"

text \<open>The five operations that move coins, and the store each of them leaves.\<close>

datatype operation =
    JoinTable string user_id real
  | LeaveTable string user_id real
  | CreateParlay string "nat \<Rightarrow> string" user_id "ParlayLeg list" real
  | CompleteHand string user_id string
  | ResolveParlaysForEvent string

fun run :: "operation \<Rightarrow> store \<Rightarrow> store" where
  "run (JoinTable tid uid buyIn) s = snd (joinTable tid uid buyIn s)"
| "run (LeaveTable tid uid cashOut) s = snd (leaveTable tid uid cashOut s)"
| "run (CreateParlay newId newLegId uid ls totalWager) s =
     snd (createParlay newId newLegId uid ls totalWager s)"
| "run (CompleteHand hid winnerId winningHand) s = snd (completeHand hid winnerId winningHand s)"
| "run (ResolveParlaysForEvent eid) s = resolveParlaysForEvent eid s"

text \<open>The cash-out of a \<open>leaveTable\<close> call is non-negative; the other calls have none.\<close>

fun cash_out_nonneg :: "operation \<Rightarrow> bool" where
  "cash_out_nonneg (LeaveTable tid uid cashOut) = (0 \<le> cashOut)"
| "cash_out_nonneg (JoinTable tid uid buyIn) = True"
| "cash_out_nonneg (CreateParlay newId newLegId uid ls totalWager) = True"
| "cash_out_nonneg (CompleteHand hid winnerId winningHand) = True"
| "cash_out_nonneg (ResolveParlaysForEvent eid) = True"

text \<open>
  The states the two services can be in. When the sports service is constructed its
  cache holds the mock events and the database holds whatever it holds; from there each
  method that writes leads to a further state.
\<close>

inductive reachable :: "store \<Rightarrow> bool" where
  constructed: "eventCache s = initializeMockEvents (mockEvents now) \<Longrightarrow> reachable s"
| after_createTable: "reachable s \<Longrightarrow> reachable (snd (createTable newId nm sb bb mp s))"
| after_joinTable: "reachable s \<Longrightarrow> reachable (snd (joinTable tid uid buyIn s))"
| after_leaveTable: "reachable s \<Longrightarrow> reachable (snd (leaveTable tid uid cashOut s))"
| after_dealHand: "reachable s \<Longrightarrow> reachable (snd (dealHand newId tid s))"
| after_completeHand:
    "reachable s \<Longrightarrow> reachable (snd (completeHand hid winnerId winningHand s))"
| after_createParlay:
    "reachable s \<Longrightarrow> reachable (snd (createParlay newId newLegId uid ls totalWager s))"
| after_updateEventScore: "reachable s \<Longrightarrow> reachable (snd (updateEventScore eid hs as s))"
| after_resolveParlaysForEvent: "reachable s \<Longrightarrow> reachable (resolveParlaysForEvent eid s)"

text \<open>No event of the cache is completed.\<close>

definition none_completed :: "store \<Rightarrow> bool" where
  "none_completed s = (\<forall>eid event. eventCache s eid = Some event \<longrightarrow> status event \<noteq> Completed)"

text \<open>
  The running payout of \<open>createParlay\<close> as a fold, and the condition that every
  quotient and every product of the loop is a finite double.
\<close>

definition rounded_payout :: "real \<Rightarrow> ParlayLeg list \<Rightarrow> real" where
  "rounded_payout totalWager ls =
     foldl (\<lambda>p leg. to_double (p * to_double (leg_odds leg / 100))) totalWager ls"

fun payouts_finite :: "real \<Rightarrow> ParlayLeg list \<Rightarrow> bool" where
  "payouts_finite p [] = True"
| "payouts_finite p (leg # rest) =
     (finite_double (to_double (leg_odds leg / 100))
      \<and> finite_double (to_double (p * to_double (leg_odds leg / 100)))
      \<and> payouts_finite (to_double (p * to_double (leg_odds leg / 100))) rest)"

text \<open>
  A candidate wins when the loop body finds all the legs of its parlay resolved and
  all of them won; \<open>payout_to u s cs\<close> is the sum of the potential payouts of the
  winning candidates of \<open>cs\<close> that belong to user \<open>u\<close>.
\<close>

definition parlay_wins :: "store \<Rightarrow> candidate \<Rightarrow> bool" where
  "parlay_wins s c =
     (\<not> list_ex (\<lambda>leg. pl_result leg = None) (legs_of_parlay (fst c) s)
      \<and> list_all (\<lambda>leg. pl_result leg = Some LegWon) (legs_of_parlay (fst c) s))"

definition payout_to :: "user_id \<Rightarrow> store \<Rightarrow> candidate list \<Rightarrow> real" where
  "payout_to u s cs =
     sum_list (map (\<lambda>(pid, uid, wager, payout). payout)
                 (filter (\<lambda>c. fst (snd c) = u \<and> parlay_wins s c) cs))"


section \<open>Concrete stores\<close>

text \<open>
  Small stores on which the operations are evaluated below. \<open>nfl_001\<close> and \<open>nba_001\<close>
  are two of the events the sports service seeds its cache with (their start time is
  relative to the clock, here a fixed number).
\<close>

definition empty_store :: store where
  "empty_store =
     \<lparr>poker_tables = [], poker_players = [], poker_hands = [], user_balances = Map.empty,
      transactions = [], sports_events = Map.empty, sports_parlays = [], parlay_legs = [],
      activeTables = Map.empty, eventCache = Map.empty\<rparr>"

definition nfl_001 :: SportsEvent where
  "nfl_001 =
     \<lparr>eventId = ''nfl_001'', sport = Nfl, homeTeam = ''Kansas City Chiefs'',
      awayTeam = ''Buffalo Bills'', startTime = 2, status = Scheduled, homeScore = None,
      awayScore = None, spread = Some (- 3.5), overUnder = Some 47.5,
      moneylineHome = Some (- 170), moneylineAway = Some 145\<rparr>"

definition nba_001 :: SportsEvent where
  "nba_001 =
     \<lparr>eventId = ''nba_001'', sport = Nba, homeTeam = ''Los Angeles Lakers'',
      awayTeam = ''Denver Nuggets'', startTime = 1, status = Scheduled, homeScore = None,
      awayScore = None, spread = Some (- 2), overUnder = Some 218,
      moneylineHome = Some (- 115), moneylineAway = Some (- 105)\<rparr>"

text \<open>User 7 owns \<open>b\<close> coins; the cache holds the two events; every table is empty.\<close>

definition funded_store :: "real \<Rightarrow> store" where
  "funded_store b =
     empty_store\<lparr>user_balances := [7 \<mapsto> b],
                 eventCache := [''nfl_001'' \<mapsto> nfl_001, ''nba_001'' \<mapsto> nba_001]\<rparr>"

definition leg_ids :: "nat \<Rightarrow> string" where
  "leg_ids i = (if i = 0 then ''leg_a'' else ''leg_b'')"

definition leg_on :: "string \<Rightarrow> real \<Rightarrow> ParlayLeg" where
  "leg_on eid od =
     \<lparr>leg_legId = [], leg_eventId = eid, leg_pick = Home, leg_betType = Moneyline,
      leg_odds = od, leg_wager = 0, leg_result = None\<rparr>"

text \<open>User 7 has left table \<open>t1\<close> already: the only seat there is inactive.\<close>

definition left_store :: store where
  "left_store =
     (funded_store 100)
       \<lparr>poker_players :=
          [\<lparr>pp_table_id = ''t1'', pp_user_id = 7, pp_stack = 200,
            pp_position = ''under-the-gun'', pp_is_active = False, pp_total_wins = 0\<rparr>]\<rparr>"

text \<open>A table created with the blinds 5 and 10 for six players, user 7 owning 1000 coins.\<close>

definition table_store :: store where
  "table_store = snd (createTable ''t1'' ''Main'' 5 10 6 (funded_store 1000))"

text \<open>
  A hand of pot 15 that is finished and was won by user 7, who owns 1015 coins.
\<close>

definition finished_store :: store where
  "finished_store =
     (funded_store 1015)
       \<lparr>poker_hands :=
          [\<lparr>ph_hand_id = ''h1'', ph_table_id = ''t1'', ph_small_blind_amount = 5,
            ph_big_blind_amount = 10, ph_pot = 15, ph_status = Finished,
            ph_winner_id = Some 7, ph_winning_hand = Some ''flush''\<rparr>]\<rparr>"

text \<open>
  The sports service has just been constructed at clock 0 and user 7 owns 1000 coins
  (the other tables are empty); then a table is created; then user 7 joins it.
\<close>

definition constructed_store :: store where
  "constructed_store =
     empty_store\<lparr>user_balances := [7 \<mapsto> 1000],
                 eventCache := initializeMockEvents (mockEvents 0)\<rparr>"

definition opened_store :: store where
  "opened_store = snd (createTable ''t1'' ''Main'' 5 10 6 constructed_store)"

definition seated_store :: store where
  "seated_store = snd (joinTable ''t1'' 7 200 opened_store)"

section \<open>Doubles\<close>

text \<open>
  \<open>double_exponent\<close> brackets its argument between two powers of two, and \<open>to_double\<close>
  moves its argument by at most half the distance between neighbouring doubles.
\<close>

lemma round_half_even_near: "\<bar>of_int (round_half_even y) - y\<bar> \<le> 1 / 2"
  unfolding round_half_even_def Let_def by (auto simp: abs_real_def) linarith+

lemma double_exponent_lower_large:
  assumes "1 \<le> \<bar>x\<bar>"
  shows "2 powi double_exponent x \<le> \<bar>x\<bar>"
proof -
  from assms have n: "0 < \<lfloor>\<bar>x\<bar>\<rfloor>" by linarith
  from bitlen_bounds [OF n] have "2 ^ nat (bitlen \<lfloor>\<bar>x\<bar>\<rfloor> - 1) \<le> \<lfloor>\<bar>x\<bar>\<rfloor>" by simp
  then have "(2::real) ^ nat (bitlen \<lfloor>\<bar>x\<bar>\<rfloor> - 1) \<le> of_int \<lfloor>\<bar>x\<bar>\<rfloor>"
    by (metis of_int_le_iff of_int_numeral of_int_power)
  also have "\<dots> \<le> \<bar>x\<bar>" by simp
  finally have "(2::real) ^ nat (bitlen \<lfloor>\<bar>x\<bar>\<rfloor> - 1) \<le> \<bar>x\<bar>" .
  moreover have "0 < bitlen \<lfloor>\<bar>x\<bar>\<rfloor>"
    using n bitlen_eq_zero_iff [of "\<lfloor>\<bar>x\<bar>\<rfloor>"] bitlen_nonneg [of "\<lfloor>\<bar>x\<bar>\<rfloor>"] by linarith
  ultimately show ?thesis using assms
    by (simp add: double_exponent_def power_int_def)
qed

lemma double_exponent_upper_large:
  assumes "1 \<le> \<bar>x\<bar>"
  shows "\<bar>x\<bar> < 2 powi (double_exponent x + 1)"
proof -
  from assms have n: "0 < \<lfloor>\<bar>x\<bar>\<rfloor>" by linarith
  from bitlen_bounds [OF n] have "\<lfloor>\<bar>x\<bar>\<rfloor> < 2 ^ nat (bitlen \<lfloor>\<bar>x\<bar>\<rfloor>)" by simp
  then have "\<lfloor>\<bar>x\<bar>\<rfloor> + 1 \<le> 2 ^ nat (bitlen \<lfloor>\<bar>x\<bar>\<rfloor>)" by simp
  then have "of_int (\<lfloor>\<bar>x\<bar>\<rfloor> + 1) \<le> (2::real) ^ nat (bitlen \<lfloor>\<bar>x\<bar>\<rfloor>)"
    by (metis of_int_le_iff of_int_numeral of_int_power)
  moreover have "\<bar>x\<bar> < of_int (\<lfloor>\<bar>x\<bar>\<rfloor> + 1)" by linarith
  ultimately have "\<bar>x\<bar> < (2::real) ^ nat (bitlen \<lfloor>\<bar>x\<bar>\<rfloor>)" by linarith
  moreover have "0 < bitlen \<lfloor>\<bar>x\<bar>\<rfloor>"
    using n bitlen_eq_zero_iff [of "\<lfloor>\<bar>x\<bar>\<rfloor>"] bitlen_nonneg [of "\<lfloor>\<bar>x\<bar>\<rfloor>"] by linarith
  ultimately show ?thesis using assms
    by (simp add: double_exponent_def power_int_def)
qed

lemma double_exponent_small:
  assumes "x \<noteq> 0" and "\<bar>x\<bar> < 1"
  shows "2 powi double_exponent x \<le> \<bar>x\<bar>" and "\<bar>x\<bar> < 2 powi (double_exponent x + 1)"
proof -
  define y where "y = 1 / \<bar>x\<bar>"
  define k where "k = bitlen (\<lceil>y\<rceil> - 1)"
  from assms have y: "1 < y" and ypos: "0 < y" and x: "\<bar>x\<bar> = 1 / y" "0 < \<bar>x\<bar>"
    by (simp_all add: y_def)
  then have m: "0 < \<lceil>y\<rceil> - 1" by linarith
  from bitlen_bounds [OF m] have b: "2 ^ nat (k - 1) \<le> \<lceil>y\<rceil> - 1" "\<lceil>y\<rceil> - 1 < 2 ^ nat k"
    by (simp_all add: k_def)
  have kpos: "0 < k"
    using m bitlen_eq_zero_iff [of "\<lceil>y\<rceil> - 1"] bitlen_nonneg [of "\<lceil>y\<rceil> - 1"]
    unfolding k_def by linarith
  from b(2) have "\<lceil>y\<rceil> \<le> 2 ^ nat k" by simp
  then have "of_int \<lceil>y\<rceil> \<le> (2::real) ^ nat k"
    by (metis of_int_le_iff of_int_numeral of_int_power)
  then have up: "y \<le> 2 ^ nat k" by linarith
  from b(1) have "of_int (\<lceil>y\<rceil> - 1) \<ge> (2::real) ^ nat (k - 1)"
    by (metis of_int_le_iff of_int_numeral of_int_power)
  moreover have "of_int (\<lceil>y\<rceil> - 1) < y" by linarith
  ultimately have lo: "2 ^ nat (k - 1) < y" by linarith
  have e: "double_exponent x = - k"
    using assms by (simp add: double_exponent_def k_def y_def)
  from up ypos have "1 / 2 ^ nat k \<le> 1 / y"
    by (simp add: frac_le)
  then show "2 powi double_exponent x \<le> \<bar>x\<bar>"
    using kpos by (simp add: e x power_int_def field_simps)
  from lo have "1 / y < 1 / 2 ^ nat (k - 1)"
    by (simp add: frac_less2)
  moreover have "(2::real) powi (double_exponent x + 1) = 1 / 2 ^ nat (k - 1)"
  proof (cases "k = 1")
    case True
    then show ?thesis by (simp add: e)
  next
    case False
    with kpos have "- k + 1 < 0" and "nat (- (- k + 1)) = nat (k - 1)" by simp_all
    then show ?thesis
      by (simp add: e power_int_def power_one_over)
  qed
  ultimately show "\<bar>x\<bar> < 2 powi (double_exponent x + 1)"
    by (simp add: x)
qed


lemma to_double_near:
  "\<bar>to_double x - x\<bar> \<le> ulp x / 2"
proof (cases "x = 0")
  case True
  then show ?thesis by (simp add: to_double_def ulp_def Let_def)
next
  case False
  have pos: "0 < ulp x"
    by (simp add: ulp_def Let_def)
  have "\<bar>of_int (round_half_even (x / ulp x)) - x / ulp x\<bar> \<le> 1 / 2"
    by (rule round_half_even_near)
  then have "\<bar>of_int (round_half_even (x / ulp x)) - x / ulp x\<bar> * ulp x \<le> 1 / 2 * ulp x"
    using pos by (simp add: mult_right_mono)
  moreover have "\<bar>of_int (round_half_even (x / ulp x)) - x / ulp x\<bar> * ulp x
        = \<bar>of_int (round_half_even (x / ulp x)) * ulp x - x\<bar>"
  proof -
    have "\<bar>of_int (round_half_even (x / ulp x)) - x / ulp x\<bar> * ulp x
          = \<bar>(of_int (round_half_even (x / ulp x)) - x / ulp x) * ulp x\<bar>"
      using pos by (simp add: abs_mult)
    also have "(of_int (round_half_even (x / ulp x)) - x / ulp x) * ulp x
          = of_int (round_half_even (x / ulp x)) * ulp x - x"
      using pos by (simp add: left_diff_distrib)
    finally show ?thesis .
  qed
  ultimately show ?thesis
    using False by (simp add: to_double_def)
qed

lemma double_exponent_bounds:
  assumes "x \<noteq> 0"
  shows "2 powi double_exponent x \<le> \<bar>x\<bar>" and "\<bar>x\<bar> < 2 powi (double_exponent x + 1)"
proof -
  show "2 powi double_exponent x \<le> \<bar>x\<bar>"
  proof (cases "1 \<le> \<bar>x\<bar>")
    case True
    then show ?thesis by (rule double_exponent_lower_large)
  next
    case False
    with assms show ?thesis by (simp add: double_exponent_small)
  qed
  show "\<bar>x\<bar> < 2 powi (double_exponent x + 1)"
  proof (cases "1 \<le> \<bar>x\<bar>")
    case True
    then show ?thesis by (rule double_exponent_upper_large)
  next
    case False
    with assms show ?thesis by (simp add: double_exponent_small)
  qed
qed

text \<open>The doubles nearest to 0.1, 1.1 and 1.2.\<close>

lemma to_double_tenths:
  "to_double (1 / 10) = 3602879701896397 / 36028797018963968"
  "to_double (11 / 10) = 2476979795053773 / 2251799813685248"
  "to_double (12 / 10) = 5404319552844595 / 4503599627370496"
  by code_simp+

lemma to_double_200: "to_double 200 = 200"
  by code_simp

lemma to_double_5000: "to_double 5000 = 5000"
  by code_simp

section \<open>What the shared statements leave alone\<close>

lemma update_balance_frame [simp]:
  "poker_tables (update_balance u d s) = poker_tables s"
  "poker_players (update_balance u d s) = poker_players s"
  "poker_hands (update_balance u d s) = poker_hands s"
  "transactions (update_balance u d s) = transactions s"
  "sports_events (update_balance u d s) = sports_events s"
  "sports_parlays (update_balance u d s) = sports_parlays s"
  "parlay_legs (update_balance u d s) = parlay_legs s"
  "activeTables (update_balance u d s) = activeTables s"
  "eventCache (update_balance u d s) = eventCache s"
  by (simp_all add: update_balance_def split: option.splits)

lemma update_balance_balances:
  "user_balances (update_balance u d s) =
     (case user_balances s u of
        None \<Rightarrow> user_balances s
      | Some b \<Rightarrow> (user_balances s)(u \<mapsto> b + d))"
  by (simp add: update_balance_def split: option.splits)

lemma log_transaction_frame [simp]:
  "poker_tables (log_transaction u ty a d s) = poker_tables s"
  "poker_players (log_transaction u ty a d s) = poker_players s"
  "poker_hands (log_transaction u ty a d s) = poker_hands s"
  "user_balances (log_transaction u ty a d s) = user_balances s"
  "sports_events (log_transaction u ty a d s) = sports_events s"
  "sports_parlays (log_transaction u ty a d s) = sports_parlays s"
  "parlay_legs (log_transaction u ty a d s) = parlay_legs s"
  "activeTables (log_transaction u ty a d s) = activeTables s"
  "eventCache (log_transaction u ty a d s) = eventCache s"
  by (simp_all add: log_transaction_def)

section \<open>Parlay payout\<close>

lemma payout_loop_rounded:
  "payout_loop cache ls p = Inr q \<Longrightarrow> q = rounded_payout p ls"
proof (induction ls arbitrary: p)
  case Nil
  then show ?case by (simp add: rounded_payout_def)
next
  case (Cons leg rest)
  then obtain ev where "cache (leg_eventId leg) = Some ev"
    by (auto split: option.splits)
  with Cons.prems
  have "payout_loop cache rest (to_double (p * to_double (leg_odds leg / 100))) = Inr q"
    by simp
  from Cons.IH [OF this] show ?case
    by (simp add: rounded_payout_def)
qed

lemma payout_loop_known_events:
  "list_all (\<lambda>leg. cache (leg_eventId leg) \<noteq> None) ls
   \<Longrightarrow> payout_loop cache ls p = Inr (rounded_payout p ls)"
proof (induction ls arbitrary: p)
  case Nil
  then show ?case by (simp add: rounded_payout_def)
next
  case (Cons leg rest)
  then obtain ev where "cache (leg_eventId leg) = Some ev"
    by auto
  with Cons show ?case
    by (simp add: rounded_payout_def)
qed

lemma createParlay_known_events:
  assumes "0 < totalWager" and "user_balances s uid = Some b" and "totalWager \<le> b"
    and "list_all (\<lambda>leg. eventCache s (leg_eventId leg) \<noteq> None) ls"
  shows "fst (createParlay newId newLegId uid ls totalWager s) =
           Inr \<lparr>parlay_id = newId, user_id = uid, legs = ls, total_wager = totalWager,
                potential_payout = rounded_payout totalWager ls, parlay_status = Pending\<rparr>"
  using assms
  by (simp add: createParlay_def Let_def payout_loop_known_events)

lemma leg_on_eventId [simp]: "leg_eventId (leg_on eid od) = eid"
  by (simp add: leg_on_def)

lemma rounded_payout_150_120:
  "rounded_payout 10 [leg_on ''nfl_001'' 150, leg_on ''nba_001'' 120] = 18"
  by code_simp

lemma rounded_payout_110:
  "rounded_payout 3 [leg_on ''nfl_001'' 110] = 7430939385161319 / 2251799813685248"
  by code_simp

lemma payouts_finite_150_120:
  "payouts_finite 10 [leg_on ''nfl_001'' 150, leg_on ''nba_001'' 120]"
  by code_simp

lemma createParlay_two_legs:
  "fst (createParlay ''parlay_1'' leg_ids 7 [leg_on ''nfl_001'' 150, leg_on ''nba_001'' 120] 10
          (funded_store 100))
   = Inr \<lparr>parlay_id = ''parlay_1'', user_id = 7,
          legs = [leg_on ''nfl_001'' 150, leg_on ''nba_001'' 120],
          total_wager = 10, potential_payout = 18, parlay_status = Pending\<rparr>"
proof -
  have "fst (createParlay ''parlay_1'' leg_ids 7
               [leg_on ''nfl_001'' 150, leg_on ''nba_001'' 120] 10 (funded_store 100))
        = Inr \<lparr>parlay_id = ''parlay_1'', user_id = 7,
               legs = [leg_on ''nfl_001'' 150, leg_on ''nba_001'' 120], total_wager = 10,
               potential_payout =
                 rounded_payout 10 [leg_on ''nfl_001'' 150, leg_on ''nba_001'' 120],
               parlay_status = Pending\<rparr>"
    by (rule createParlay_known_events [where b = 100])
       (simp_all add: funded_store_def empty_store_def)
  then show ?thesis
    by (simp only: rounded_payout_150_120)
qed

text \<open>
  Claim C3, as stated, fails: the payout is computed in doubles, and the rounded
  result is in general not the exact product. For a single leg of odds 110 and a wager
  of 3 the quotient \<open>110 / 100\<close> is already rounded, and the payout that
  \<open>createParlay\<close> returns is \<open>3.3000000000000003\<close> (the fraction below), not
  \<open>3 * (110 / 100)\<close>.
\<close>

theorem createParlay_payout_is_rounded:
  "fst (createParlay ''parlay_1'' leg_ids 7 [leg_on ''nfl_001'' 110] 3 (funded_store 100))
   = Inr \<lparr>parlay_id = ''parlay_1'', user_id = 7, legs = [leg_on ''nfl_001'' 110],
          total_wager = 3, potential_payout = 7430939385161319 / 2251799813685248,
          parlay_status = Pending\<rparr>
   \<and> (7430939385161319 / 2251799813685248 :: real) \<noteq> 3 * (110 / 100)"
proof -
  have "fst (createParlay ''parlay_1'' leg_ids 7 [leg_on ''nfl_001'' 110] 3 (funded_store 100))
        = Inr \<lparr>parlay_id = ''parlay_1'', user_id = 7, legs = [leg_on ''nfl_001'' 110],
               total_wager = 3,
               potential_payout = rounded_payout 3 [leg_on ''nfl_001'' 110],
               parlay_status = Pending\<rparr>"
    by (rule createParlay_known_events [where b = 100])
       (simp_all add: funded_store_def empty_store_def)
  then have "fst (createParlay ''parlay_1'' leg_ids 7 [leg_on ''nfl_001'' 110] 3
                    (funded_store 100))
        = Inr \<lparr>parlay_id = ''parlay_1'', user_id = 7, legs = [leg_on ''nfl_001'' 110],
               total_wager = 3, potential_payout = 7430939385161319 / 2251799813685248,
               parlay_status = Pending\<rparr>"
    by (simp only: rounded_payout_110)
  moreover have "(7430939385161319 / 2251799813685248 :: real) \<noteq> 3 * (110 / 100)"
    by simp
  ultimately show ?thesis
    by (rule conjI)
qed

text \<open>
  Claim C3, amended. Whenever \<open>createParlay\<close> succeeds and the numbers of the loop stay
  finite doubles, the potential payout of the parlay it returns, and of the row it
  stores, is the double that results from starting with the total wager and, for each
  leg in leg order, multiplying by the double \<open>odds / 100\<close>, every quotient and every
  product being rounded to the nearest double. With odds 150 and 120 and a wager of 10
  this is exactly 18 (see the evaluation that follows).
\<close>

theorem createParlay_potential_payout_rounded:
  assumes "fst (createParlay newId newLegId uid ls totalWager s) = Inr parlay"
    and "payouts_finite totalWager ls"
  shows "potential_payout parlay = rounded_payout totalWager ls
         \<and> sports_parlays (snd (createParlay newId newLegId uid ls totalWager s)) =
             sports_parlays s @
              [\<lparr>sp_parlay_id = newId, sp_user_id = uid, sp_total_wager = totalWager,
                sp_potential_payout = rounded_payout totalWager ls, sp_status = Pending\<rparr>]"
  using assms(1)
  by (auto simp: createParlay_def Let_def update_balance_def log_transaction_def
      dest!: payout_loop_rounded split: if_splits option.splits sum.splits)

theorem createParlay_potential_payout_rounded_witness:
  "fst (createParlay ''parlay_1'' leg_ids 7 [leg_on ''nfl_001'' 150, leg_on ''nba_001'' 120] 10
          (funded_store 100))
   = Inr \<lparr>parlay_id = ''parlay_1'', user_id = 7,
          legs = [leg_on ''nfl_001'' 150, leg_on ''nba_001'' 120],
          total_wager = 10, potential_payout = 18, parlay_status = Pending\<rparr>
   \<and> payouts_finite 10 [leg_on ''nfl_001'' 150, leg_on ''nba_001'' 120]
   \<and> rounded_payout 10 [leg_on ''nfl_001'' 150, leg_on ''nba_001'' 120] = 18
   \<and> sports_parlays (snd (createParlay ''parlay_1'' leg_ids 7
          [leg_on ''nfl_001'' 150, leg_on ''nba_001'' 120] 10 (funded_store 100)))
     = [\<lparr>sp_parlay_id = ''parlay_1'', sp_user_id = 7, sp_total_wager = 10,
         sp_potential_payout = 18, sp_status = Pending\<rparr>]"
  using createParlay_potential_payout_rounded [OF createParlay_two_legs payouts_finite_150_120]
    createParlay_two_legs payouts_finite_150_120 rounded_payout_150_120
  by (simp add: funded_store_def empty_store_def)

section \<open>Dealing a hand at a table that does not exist\<close>

lemma dealHand_throws: "dealHand newId tid s = (Inl TypeError, s)"
  by (simp add: dealHand_def PokerService_pool_def)

text \<open>
  Claim C9. The claim asks for the failure \<open>Table not found\<close>. With no table of the
  given identifier, \<open>dealHand\<close> fails with a \<open>TypeError\<close> (at \<open>this.pool.query\<close>; with a
  pool it would be at \<open>small_blind\<close> of an undefined row), not with the
  \<open>Error("Table not found")\<close> that \<open>joinTable\<close> raises for the same table. The store is
  left as it was and no hand is created.
\<close>

theorem dealHand_missing_table_type_error:
  "dealHand ''hand_1'' ''no_such_table'' (funded_store 100) = (Inl TypeError, funded_store 100)
   \<and> fst (dealHand ''hand_1'' ''no_such_table'' (funded_store 100))
       \<noteq> Inl (Error ''Table not found'')
   \<and> fst (joinTable ''no_such_table'' 7 200 (funded_store 100))
       = Inl (Error ''Table not found'')"
  by (simp add: dealHand_throws joinTable_def funded_store_def empty_store_def)

section \<open>Leaving a table\<close>

lemma leaveTable_fails_iff:
  "fst (leaveTable tid uid cashOut s) = Inl (Error ''Player not found at this table'')
   \<longleftrightarrow> filter (\<lambda>p. pp_table_id p = tid \<and> pp_user_id p = uid) (poker_players s) = []"
  by (simp add: leaveTable_def Let_def split: list.splits)

lemma leaveTable_failure_unchanged:
  assumes "fst (leaveTable tid uid cashOut s) = Inl e"
  shows "snd (leaveTable tid uid cashOut s) = s"
proof -
  from assms have none: "filter (\<lambda>p. pp_table_id p = tid \<and> pp_user_id p = uid) (poker_players s) = []"
    by (simp add: leaveTable_def Let_def split: list.splits)
  then have "\<forall>p \<in> set (poker_players s). \<not> (pp_table_id p = tid \<and> pp_user_id p = uid)"
    by (simp add: filter_empty_conv)
  then have "map (\<lambda>p. if pp_table_id p = tid \<and> pp_user_id p = uid
                       then p\<lparr>pp_is_active := False\<rparr> else p) (poker_players s)
             = poker_players s"
    by (intro map_idI) auto
  with none show ?thesis
    by (simp add: leaveTable_def Let_def)
qed

lemma deactivated_seats_inactive:
  "filter (\<lambda>p. pp_table_id p = tid \<and> pp_user_id p = uid \<and> pp_is_active p)
     (map (\<lambda>p. if pp_table_id p = tid \<and> pp_user_id p = uid
               then p\<lparr>pp_is_active := False\<rparr> else p) ps) = []"
  by (induction ps) auto

lemma leaveTable_success:
  assumes "fst (leaveTable tid uid cashOut s) = Inr r"
  shows "user_balances (snd (leaveTable tid uid cashOut s)) =
           (case user_balances s uid of
              None \<Rightarrow> user_balances s
            | Some b \<Rightarrow> (user_balances s)(uid \<mapsto> b + cashOut))"
    and "filter (\<lambda>p. pp_table_id p = tid \<and> pp_user_id p = uid \<and> pp_is_active p)
           (poker_players (snd (leaveTable tid uid cashOut s))) = []"
proof -
  from assms obtain p ps where
    "filter (\<lambda>p. pp_table_id p = tid \<and> pp_user_id p = uid) (poker_players s) = p # ps"
    by (simp add: leaveTable_def Let_def split: list.splits)
  then have eq: "snd (leaveTable tid uid cashOut s) =
    log_transaction uid Win cashOut ''Poker table cash out''
      (update_balance uid cashOut
        (s\<lparr>poker_players :=
             map (\<lambda>p. if pp_table_id p = tid \<and> pp_user_id p = uid
                       then p\<lparr>pp_is_active := False\<rparr> else p) (poker_players s)\<rparr>))"
    by (simp add: leaveTable_def Let_def)
  show "user_balances (snd (leaveTable tid uid cashOut s)) =
           (case user_balances s uid of
              None \<Rightarrow> user_balances s
            | Some b \<Rightarrow> (user_balances s)(uid \<mapsto> b + cashOut))"
    unfolding eq by (simp add: update_balance_balances split: option.splits)
  show "filter (\<lambda>p. pp_table_id p = tid \<and> pp_user_id p = uid \<and> pp_is_active p)
           (poker_players (snd (leaveTable tid uid cashOut s))) = []"
    unfolding eq by (simp add: deactivated_seats_inactive)
qed

text \<open>
  Claim C4. The claim asks \<open>leaveTable\<close> to fail for a user whose only seat at the table
  is already inactive. The statement that marks the seat inactive selects on the table
  and the user only, so it returns that seat again: the call succeeds and credits the
  cash-out a second time. (The seat queries of \<open>joinTable\<close> and \<open>getTablePlayers\<close> do
  select on \<open>is_active = TRUE\<close>.)
\<close>

theorem leaveTable_inactive_seat_cashes_out:
  "active_player_count left_store ''t1'' = 0
   \<and> fst (leaveTable ''t1'' 7 50 left_store) = Inr True
   \<and> user_balances left_store 7 = Some 100
   \<and> user_balances (snd (leaveTable ''t1'' 7 50 left_store)) 7 = Some 150"
  by (simp add: leaveTable_def left_store_def funded_store_def empty_store_def
      active_player_count_def update_balance_def log_transaction_def)

section \<open>Creating a parlay without legs\<close>

text \<open>
  With no legs, a positive wager and enough coins, \<open>createParlay\<close> itself succeeds: the
  loop over the legs does nothing, a parlay whose potential payout is the wager is
  stored, and the wager is debited.
\<close>

lemma createParlay_no_legs:
  assumes "0 < totalWager" and "user_balances s uid = Some b" and "totalWager \<le> b"
  shows "fst (createParlay newId newLegId uid [] totalWager s) =
           Inr \<lparr>parlay_id = newId, user_id = uid, legs = [], total_wager = totalWager,
                potential_payout = totalWager, parlay_status = Pending\<rparr>"
    and "user_balances (snd (createParlay newId newLegId uid [] totalWager s)) =
           (user_balances s)(uid \<mapsto> b - totalWager)"
  using assms by (simp_all add: createParlay_def Let_def update_balance_balances)

text \<open>
  Claim C7, as stated, at the service: \<open>createParlay(7, [], 10)\<close> with a balance of 100
  does not fail; it stores a parlay and leaves a balance of 90.
\<close>

theorem createParlay_empty_legs_succeeds:
  "fst (createParlay ''parlay_1'' leg_ids 7 [] 10 (funded_store 100)) =
     Inr \<lparr>parlay_id = ''parlay_1'', user_id = 7, legs = [], total_wager = 10,
          potential_payout = 10, parlay_status = Pending\<rparr>
   \<and> sports_parlays (snd (createParlay ''parlay_1'' leg_ids 7 [] 10 (funded_store 100))) =
       [\<lparr>sp_parlay_id = ''parlay_1'', sp_user_id = 7, sp_total_wager = 10,
         sp_potential_payout = 10, sp_status = Pending\<rparr>]
   \<and> user_balances (funded_store 100) 7 = Some 100
   \<and> user_balances (snd (createParlay ''parlay_1'' leg_ids 7 [] 10 (funded_store 100))) 7 =
       Some 90"
  by (simp add: createParlay_def Let_def update_balance_def log_transaction_def
      funded_store_def empty_store_def)

text \<open>
  Claim C7, amended. The check for an empty leg sequence is made by the handler of
  \<open>POST /parlays\<close>, in front of \<open>createParlay\<close>: for a body whose \<open>legs\<close> is the empty
  array the handler answers 400 \<open>Invalid parlay legs\<close> without calling the service, so
  the store (parlays, legs, balances, transactions) is the one before the request.
\<close>

theorem post_parlays_empty_legs:
  assumes "body_legs req = Some []"
  shows "post_parlays newId newLegId uid req s = (Status400 ''Invalid parlay legs'', s)"
  using assms by (simp add: post_parlays_def)

theorem post_parlays_empty_legs_witness:
  "body_legs \<lparr>body_legs = Some [], body_totalWager = Some 10\<rparr> = Some []
   \<and> post_parlays ''parlay_1'' leg_ids 7 \<lparr>body_legs = Some [], body_totalWager = Some 10\<rparr>
       (funded_store 100) = (Status400 ''Invalid parlay legs'', funded_store 100)"
  using post_parlays_empty_legs [of "\<lparr>body_legs = Some [], body_totalWager = Some 10\<rparr>"
      "''parlay_1''" leg_ids 7 "funded_store 100"]
  by simp

section \<open>Updating a score\<close>

lemma resolveParlaysForEvent_not_completed:
  "eventCache s eid = Some ev \<Longrightarrow> status ev \<noteq> Completed \<Longrightarrow> resolveParlaysForEvent eid s = s"
  by (simp add: resolveParlaysForEvent_def)

text \<open>
  Claim C8. For an event of the cache whose status is not \<open>completed\<close>,
  \<open>updateEventScore\<close> succeeds and changes exactly two things: the two scores of the
  cached event (whose status stays as it was) and the \<open>sports_events\<close> row of the event
  (scores as given, status \<open>in-progress\<close>). The resolution it calls returns at once, so
  parlays, legs, balances and transactions are untouched.
\<close>

theorem updateEventScore_not_completed:
  assumes "eventCache s eid = Some ev" and "status ev \<noteq> Completed"
  shows "updateEventScore eid hs as s =
           (Inr (),
            s\<lparr>eventCache := (eventCache s)(eid \<mapsto> ev\<lparr>homeScore := Some hs, awayScore := Some as\<rparr>),
              sports_events := (sports_events s)(eid \<mapsto>
                (case sports_events s eid of
                   None \<Rightarrow> \<lparr>se_sport = sport ev, se_home_team = homeTeam ev,
                             se_away_team = awayTeam ev, se_home_score = hs,
                             se_away_score = as, se_status = InProgress\<rparr>
                 | Some r \<Rightarrow> r\<lparr>se_home_score := hs, se_away_score := as,
                                se_status := InProgress\<rparr>))\<rparr>)
         \<and> sports_parlays (snd (updateEventScore eid hs as s)) = sports_parlays s
         \<and> parlay_legs (snd (updateEventScore eid hs as s)) = parlay_legs s
         \<and> user_balances (snd (updateEventScore eid hs as s)) = user_balances s
         \<and> transactions (snd (updateEventScore eid hs as s)) = transactions s"
proof -
  let ?ev' = "ev\<lparr>homeScore := Some hs, awayScore := Some as\<rparr>"
  let ?row = "case sports_events s eid of
                None \<Rightarrow> \<lparr>se_sport = sport ev, se_home_team = homeTeam ev,
                          se_away_team = awayTeam ev, se_home_score = hs,
                          se_away_score = as, se_status = InProgress\<rparr>
              | Some r \<Rightarrow> r\<lparr>se_home_score := hs, se_away_score := as, se_status := InProgress\<rparr>"
  let ?s2 = "s\<lparr>eventCache := (eventCache s)(eid \<mapsto> ?ev'),
               sports_events := (sports_events s)(eid \<mapsto> ?row)\<rparr>"
  have "eventCache ?s2 eid = Some ?ev'" and "status ?ev' \<noteq> Completed"
    using assms by simp_all
  then have "resolveParlaysForEvent eid ?s2 = ?s2"
    by (rule resolveParlaysForEvent_not_completed)
  then have "updateEventScore eid hs as s = (Inr (), ?s2)"
    using assms(1) by (simp add: updateEventScore_def Let_def split: option.splits)
  then show ?thesis by simp
qed

theorem updateEventScore_not_completed_witness:
  "eventCache (funded_store 100) ''nfl_001'' = Some nfl_001
   \<and> status nfl_001 \<noteq> Completed
   \<and> fst (updateEventScore ''nfl_001'' 21 17 (funded_store 100)) = Inr ()
   \<and> eventCache (snd (updateEventScore ''nfl_001'' 21 17 (funded_store 100))) ''nfl_001'' =
       Some (nfl_001\<lparr>homeScore := Some 21, awayScore := Some 17\<rparr>)
   \<and> sports_events (snd (updateEventScore ''nfl_001'' 21 17 (funded_store 100))) ''nfl_001'' =
       Some \<lparr>se_sport = Nfl, se_home_team = ''Kansas City Chiefs'',
             se_away_team = ''Buffalo Bills'', se_home_score = 21, se_away_score = 17,
             se_status = InProgress\<rparr>
   \<and> user_balances (snd (updateEventScore ''nfl_001'' 21 17 (funded_store 100))) 7 = Some 100"
proof -
  have c: "eventCache (funded_store 100) ''nfl_001'' = Some nfl_001"
    by (simp add: funded_store_def)
  have st: "status nfl_001 \<noteq> Completed"
    by (simp add: nfl_001_def)
  show ?thesis
    using updateEventScore_not_completed [OF c st, of 21 17] c st
    by (simp add: funded_store_def empty_store_def nfl_001_def)
qed

section \<open>Eligibility of a user without a country\<close>

lemma checkEligibility_no_country_user:
  "fst (checkEligibility 2024 7
          \<lparr>users = [7 \<mapsto> \<lparr>u_date_of_birth = Some 1990, u_state = Some ''tn'', u_country = None\<rparr>],
            compliance_logs = []\<rparr>)
   = Inr \<lparr>cc_userId = 7, cc_userAge = Some 34, cc_userState = Some ''tn'',
          cc_isEligible = False, cc_reason = Some ''Sweepstakes not available in tn''\<rparr>"
proof -
  have "toUpperCase ''tn'' = ''TN''"
    by code_simp
  then show ?thesis
    by (simp add: checkEligibility_def Let_def isAgeEligible_def isStateEligible_def
        isCountryEligible_def ineligibleStates_def eligibleCountries_def)
qed

text \<open>
  Claim C10. When the stored country of the user is missing, \<open>checkEligibility\<close> checks
  the country \<open>US\<close>, which is eligible: the user is eligible exactly when the age and the
  state checks pass, and the reason of an ineligible result is the age reason or the
  state reason, never \<open>Only available in US and Canada\<close>.
\<close>

theorem checkEligibility_missing_country:
  assumes "users s uid = Some u" and "u_country u = None"
    and "fst (checkEligibility thisYear uid s) = Inr r"
  shows "isCountryEligible u
         \<and> cc_isEligible r = (isAgeEligible (cc_userAge r) \<and> isStateEligible u)
         \<and> cc_reason r \<noteq> Some ''Only available in US and Canada''
         \<and> (cc_isEligible r \<or> cc_reason r = Some ''Must be 18+ years old''
             \<or> (\<exists>st. u_state u = Some st
                    \<and> cc_reason r = Some (''Sweepstakes not available in '' @ st)))"
proof -
  define age where "age = (case u_date_of_birth u of None \<Rightarrow> None | Some y \<Rightarrow> Some (thisYear - y))"
  from assms(2) have ce: "isCountryEligible u"
    by (simp add: isCountryEligible_def eligibleCountries_def)
  from assms(1,3) have r:
    "cc_userAge r = age"
    "cc_isEligible r = (isAgeEligible age \<and> isStateEligible u \<and> isCountryEligible u)"
    "cc_reason r =
       (if \<not> isAgeEligible age then Some ''Must be 18+ years old''
        else if \<not> isStateEligible u
        then Some (''Sweepstakes not available in '' @
                   (case u_state u of None \<Rightarrow> ''undefined'' | Some st \<Rightarrow> st))
        else if \<not> isCountryEligible u then Some ''Only available in US and Canada''
        else None)"
    by (auto simp: checkEligibility_def Let_def age_def)
  show ?thesis
  proof (cases "isAgeEligible age")
    case False
    with r ce show ?thesis by simp
  next
    case age_ok: True
    show ?thesis
    proof (cases "isStateEligible u")
      case True
      with age_ok r ce show ?thesis by simp
    next
      case False
      then obtain st where "u_state u = Some st"
        by (auto simp: isStateEligible_def split: option.splits)
      with False age_ok r ce show ?thesis by simp
    qed
  qed
qed

theorem checkEligibility_missing_country_witness:
  "users \<lparr>users = [7 \<mapsto> \<lparr>u_date_of_birth = Some 1990, u_state = Some ''tn'', u_country = None\<rparr>],
          compliance_logs = []\<rparr> 7
     = Some \<lparr>u_date_of_birth = Some 1990, u_state = Some ''tn'', u_country = None\<rparr>
   \<and> fst (checkEligibility 2024 7
          \<lparr>users = [7 \<mapsto> \<lparr>u_date_of_birth = Some 1990, u_state = Some ''tn'', u_country = None\<rparr>],
            compliance_logs = []\<rparr>)
     = Inr \<lparr>cc_userId = 7, cc_userAge = Some 34, cc_userState = Some ''tn'',
            cc_isEligible = False, cc_reason = Some ''Sweepstakes not available in tn''\<rparr>
   \<and> isCountryEligible \<lparr>u_date_of_birth = Some 1990, u_state = Some ''tn'', u_country = None\<rparr>
   \<and> isAgeEligible (Some 34)
   \<and> \<not> isStateEligible \<lparr>u_date_of_birth = Some 1990, u_state = Some ''tn'', u_country = None\<rparr>"
  using checkEligibility_missing_country [OF _ _ checkEligibility_no_country_user,
      of "\<lparr>u_date_of_birth = Some 1990, u_state = Some ''tn'', u_country = None\<rparr>"]
    checkEligibility_no_country_user
  by (simp add: isAgeEligible_def)

section \<open>Seats of a user at a table\<close>

lemma table_store_eval:
  "table_store = (funded_store 1000)
     \<lparr>poker_tables := [\<lparr>pt_table_id = ''t1'', pt_name = ''Main'', pt_small_blind = 5,
                         pt_big_blind = 10, pt_max_players = 6, pt_min_buy_in = 200,
                         pt_max_buy_in = 5000, pt_status = Open\<rparr>],
      activeTables := [''t1'' \<mapsto> \<lparr>tableId = ''t1'', name = ''Main'', smallBlind = 5,
                         bigBlind = 10, maxPlayers = 6, currentPlayers = 0,
                         table_status = Open, totalPot = 0, minBuyIn = 200, maxBuyIn = 5000\<rparr>]\<rparr>"
  by (simp add: table_store_def createTable_def Let_def funded_store_def empty_store_def
      to_double_200 to_double_5000)

text \<open>
  Claim C6, as stated, fails: \<open>joinTable\<close> looks at the table, the buy-in, the number of
  active seats of the table and the balance, never at the seats of the joining user. A
  user with enough coins who joins the same table twice holds two active seats there.
\<close>

theorem joinTable_twice_two_active_seats:
  "active_seats table_store ''t1'' 7 = 0
   \<and> fst (joinTable ''t1'' 7 200 table_store) = Inr True
   \<and> active_seats (snd (joinTable ''t1'' 7 200 table_store)) ''t1'' 7 = 1
   \<and> fst (joinTable ''t1'' 7 200 (snd (joinTable ''t1'' 7 200 table_store))) = Inr True
   \<and> active_seats (snd (joinTable ''t1'' 7 200 (snd (joinTable ''t1'' 7 200 table_store)))) ''t1'' 7 = 2"
  by (simp add: table_store_eval joinTable_def Let_def funded_store_def empty_store_def
      active_seats_def active_player_count_def update_balance_def log_transaction_def)

lemma joinTable_success:
  assumes "fst (joinTable tid uid buyIn s) = Inr r"
  obtains tbl b where
    "find (\<lambda>t. pt_table_id t = tid) (poker_tables s) = Some tbl"
    "pt_min_buy_in tbl \<le> buyIn" "buyIn \<le> pt_max_buy_in tbl"
    "real (active_player_count s tid) < pt_max_players tbl"
    "user_balances s uid = Some b" "buyIn \<le> b"
    "snd (joinTable tid uid buyIn s) =
       log_transaction uid Bet buyIn ''Poker table buy-in''
         (update_balance uid (- buyIn)
            (s\<lparr>poker_players := poker_players s @
                 [\<lparr>pp_table_id = tid, pp_user_id = uid, pp_stack = buyIn,
                   pp_position = ''under-the-gun'', pp_is_active = True,
                   pp_total_wins = 0\<rparr>]\<rparr>))"
proof (cases "find (\<lambda>t. pt_table_id t = tid) (poker_tables s)")
  case None
  with assms show ?thesis by (simp add: joinTable_def)
next
  case (Some tbl)
  show ?thesis
  proof (cases "user_balances s uid")
    case None
    with Some assms show ?thesis by (simp add: joinTable_def split: if_splits)
  next
    case (Some b)
    with \<open>find (\<lambda>t. pt_table_id t = tid) (poker_tables s) = Some tbl\<close> assms
    have c: "\<not> (buyIn < pt_min_buy_in tbl \<or> buyIn > pt_max_buy_in tbl)"
      "\<not> real (active_player_count s tid) \<ge> pt_max_players tbl" "\<not> b < buyIn"
      by (simp_all add: joinTable_def split: if_splits)
    with Some \<open>find (\<lambda>t. pt_table_id t = tid) (poker_tables s) = Some tbl\<close>
    have "snd (joinTable tid uid buyIn s) =
       log_transaction uid Bet buyIn ''Poker table buy-in''
         (update_balance uid (- buyIn)
            (s\<lparr>poker_players := poker_players s @
                 [\<lparr>pp_table_id = tid, pp_user_id = uid, pp_stack = buyIn,
                   pp_position = ''under-the-gun'', pp_is_active = True,
                   pp_total_wins = 0\<rparr>]\<rparr>))"
      by (simp add: joinTable_def Let_def)
    with c Some \<open>find (\<lambda>t. pt_table_id t = tid) (poker_tables s) = Some tbl\<close> that
    show ?thesis by (simp add: not_less not_le)
  qed
qed

text \<open>
  Claim C6, amended. Every successful \<open>joinTable\<close> adds exactly one active seat for the
  joining user at the joined table and changes the number of active seats of no other
  user or table. So the user holds at most one active seat there afterwards exactly
  when the user held none before.
\<close>

theorem joinTable_adds_one_active_seat:
  assumes "fst (joinTable tid uid buyIn s) = Inr r"
  shows "active_seats (snd (joinTable tid uid buyIn s)) t u =
           active_seats s t u + (if t = tid \<and> u = uid then 1 else 0)"
proof -
  from assms obtain tbl b where
    "snd (joinTable tid uid buyIn s) =
       log_transaction uid Bet buyIn ''Poker table buy-in''
         (update_balance uid (- buyIn)
            (s\<lparr>poker_players := poker_players s @
                 [\<lparr>pp_table_id = tid, pp_user_id = uid, pp_stack = buyIn,
                   pp_position = ''under-the-gun'', pp_is_active = True,
                   pp_total_wins = 0\<rparr>]\<rparr>))"
    by (rule joinTable_success)
  then show ?thesis
    by (simp add: active_seats_def)
qed

theorem joinTable_adds_one_active_seat_witness:
  "fst (joinTable ''t1'' 7 200 (snd (joinTable ''t1'' 7 200 table_store))) = Inr True
   \<and> active_seats (snd (joinTable ''t1'' 7 200 table_store)) ''t1'' 7 = 1
   \<and> active_seats (snd (joinTable ''t1'' 7 200 (snd (joinTable ''t1'' 7 200 table_store)))) ''t1'' 7 = 2"
proof -
  have ok: "fst (joinTable ''t1'' 7 200 (snd (joinTable ''t1'' 7 200 table_store))) = Inr True"
    by (simp add: table_store_eval joinTable_def Let_def funded_store_def empty_store_def
      active_player_count_def update_balance_def log_transaction_def)
  have one: "active_seats (snd (joinTable ''t1'' 7 200 table_store)) ''t1'' 7 = 1"
    by (simp add: table_store_eval joinTable_def Let_def funded_store_def empty_store_def
      active_seats_def active_player_count_def update_balance_def log_transaction_def)
  from joinTable_adds_one_active_seat [OF ok, of "''t1''" 7] ok one show ?thesis
    by simp
qed

section \<open>Completing a hand\<close>

lemma completeHand_throws:
  "completeHand hid winnerId winningHand s = (Inl TypeError, s)"
  by (simp add: completeHand_def PokerService_pool_def)

text \<open>
  Claim C5. A \<open>completeHand\<close> call on a hand that is already finished does not credit
  the pot again: the call fails with a \<open>TypeError\<close> at its first statement
  (\<open>this.pool.query\<close>), so the store, and with it every balance, every transaction and
  the hand itself, is left as it was. (The same holds for a hand in any other status:
  no \<open>completeHand\<close> call ever credits a pot.)
\<close>

theorem completeHand_finished_hand_not_paid_again:
  assumes "find (\<lambda>h. ph_hand_id h = hid) (poker_hands s) = Some h"
    and "ph_status h = Finished"
  shows "completeHand hid winnerId winningHand s = (Inl TypeError, s)
         \<and> user_balances (snd (completeHand hid winnerId winningHand s)) = user_balances s
         \<and> transactions (snd (completeHand hid winnerId winningHand s)) = transactions s
         \<and> poker_hands (snd (completeHand hid winnerId winningHand s)) = poker_hands s"
  by (simp add: completeHand_throws)

theorem completeHand_finished_hand_not_paid_again_witness:
  "find (\<lambda>h. ph_hand_id h = ''h1'') (poker_hands finished_store) =
     Some \<lparr>ph_hand_id = ''h1'', ph_table_id = ''t1'', ph_small_blind_amount = 5,
           ph_big_blind_amount = 10, ph_pot = 15, ph_status = Finished, ph_winner_id = Some 7,
           ph_winning_hand = Some ''flush''\<rparr>
   \<and> user_balances finished_store 7 = Some 1015
   \<and> fst (completeHand ''h1'' 7 ''flush'' finished_store) = Inl TypeError
   \<and> user_balances (snd (completeHand ''h1'' 7 ''flush'' finished_store)) 7 = Some 1015"
proof -
  have f: "find (\<lambda>h. ph_hand_id h = ''h1'') (poker_hands finished_store) =
     Some \<lparr>ph_hand_id = ''h1'', ph_table_id = ''t1'', ph_small_blind_amount = 5,
           ph_big_blind_amount = 10, ph_pot = 15, ph_status = Finished, ph_winner_id = Some 7,
           ph_winning_hand = Some ''flush''\<rparr>"
    by (simp add: finished_store_def)
  have st: "ph_status \<lparr>ph_hand_id = ''h1'', ph_table_id = ''t1'', ph_small_blind_amount = 5,
           ph_big_blind_amount = 10, ph_pot = 15, ph_status = Finished, ph_winner_id = Some 7,
           ph_winning_hand = Some ''flush''\<rparr> = Finished"
    by simp
  have b: "user_balances finished_store 7 = Some 1015"
    by (simp add: finished_store_def funded_store_def)
  from completeHand_finished_hand_not_paid_again [OF f st, of 7 "''flush''"] f b
  show ?thesis by simp
qed

section \<open>Balances stay non-negative\<close>

lemma balances_nonneg_same:
  "user_balances s' = user_balances s \<Longrightarrow> balances_nonneg s' = balances_nonneg s"
  by (simp add: balances_nonneg_def)

lemma balances_nonneg_update:
  assumes "balances_nonneg s" and "\<And>b. user_balances s u = Some b \<Longrightarrow> 0 \<le> b + d"
  shows "balances_nonneg (update_balance u d s)"
  using assms
  by (auto simp: balances_nonneg_def update_balance_balances split: option.splits if_splits)

lemma balances_nonneg_credit:
  "balances_nonneg s \<Longrightarrow> 0 \<le> d \<Longrightarrow> balances_nonneg (update_balance u d s)"
  by (rule balances_nonneg_update) (auto simp: balances_nonneg_def)

lemma joinTable_failure_unchanged:
  assumes "fst (joinTable tid uid buyIn s) = Inl e"
  shows "snd (joinTable tid uid buyIn s) = s"
proof (cases "find (\<lambda>t. pt_table_id t = tid) (poker_tables s)")
  case None
  then show ?thesis by (simp add: joinTable_def)
next
  case (Some tbl)
  show ?thesis
  proof (cases "user_balances s uid")
    case None
    with Some show ?thesis by (simp add: joinTable_def)
  next
    case (Some b)
    with \<open>find (\<lambda>t. pt_table_id t = tid) (poker_tables s) = Some tbl\<close> assms
    show ?thesis by (auto simp: joinTable_def Let_def split: if_splits)
  qed
qed

lemma joinTable_balances_nonneg:
  assumes "balances_nonneg s"
  shows "balances_nonneg (snd (joinTable tid uid buyIn s))"
proof (cases "fst (joinTable tid uid buyIn s)")
  case (Inl e)
  with assms show ?thesis by (simp add: joinTable_failure_unchanged)
next
  case (Inr r)
  then obtain tbl b where b: "user_balances s uid = Some b" "buyIn \<le> b"
    and eq: "snd (joinTable tid uid buyIn s) =
       log_transaction uid Bet buyIn ''Poker table buy-in''
         (update_balance uid (- buyIn)
            (s\<lparr>poker_players := poker_players s @
                 [\<lparr>pp_table_id = tid, pp_user_id = uid, pp_stack = buyIn,
                   pp_position = ''under-the-gun'', pp_is_active = True,
                   pp_total_wins = 0\<rparr>]\<rparr>))"
    by (rule joinTable_success)
  let ?s1 = "s\<lparr>poker_players := poker_players s @
                 [\<lparr>pp_table_id = tid, pp_user_id = uid, pp_stack = buyIn,
                   pp_position = ''under-the-gun'', pp_is_active = True,
                   pp_total_wins = 0\<rparr>]\<rparr>"
  have "balances_nonneg ?s1"
    using assms by (simp add: balances_nonneg_def)
  moreover have "\<And>c. user_balances ?s1 uid = Some c \<Longrightarrow> 0 \<le> c + (- buyIn)"
    using b by simp
  ultimately have "balances_nonneg (update_balance uid (- buyIn) ?s1)"
    by (rule balances_nonneg_update)
  then show ?thesis
    unfolding eq by (simp add: balances_nonneg_def)
qed

lemma leaveTable_balances_nonneg:
  assumes "balances_nonneg s" and "0 \<le> cashOut"
  shows "balances_nonneg (snd (leaveTable tid uid cashOut s))"
proof (cases "fst (leaveTable tid uid cashOut s)")
  case (Inl e)
  with assms show ?thesis by (simp add: leaveTable_failure_unchanged)
next
  case (Inr r)
  from leaveTable_success(1) [OF this] assms show ?thesis
    by (auto simp: balances_nonneg_def split: option.splits if_splits)
qed

lemma createParlay_cases:
  obtains (failure) e where "createParlay newId newLegId uid ls totalWager s = (Inl e, s)"
  | (success) b potentialPayout where
      "user_balances s uid = Some b" "totalWager \<le> b" "0 < totalWager"
      "payout_loop (eventCache s) ls totalWager = Inr potentialPayout"
      "createParlay newId newLegId uid ls totalWager s =
         (Inr \<lparr>parlay_id = newId, user_id = uid, legs = ls, total_wager = totalWager,
               potential_payout = potentialPayout, parlay_status = Pending\<rparr>,
          log_transaction uid Bet totalWager (''Sports parlay '' @ newId)
            (update_balance uid (- totalWager)
               (s\<lparr>sports_parlays := sports_parlays s @
                     [\<lparr>sp_parlay_id = newId, sp_user_id = uid, sp_total_wager = totalWager,
                       sp_potential_payout = potentialPayout, sp_status = Pending\<rparr>],
                   parlay_legs := parlay_legs s @ leg_rows newLegId newId ls\<rparr>)))"
proof (cases "totalWager \<le> 0")
  case True
  then show ?thesis by (intro failure) (simp add: createParlay_def)
next
  case pos: False
  show ?thesis
  proof (cases "user_balances s uid")
    case None
    with pos show ?thesis by (intro failure) (simp add: createParlay_def)
  next
    case (Some b)
    show ?thesis
    proof (cases "b < totalWager")
      case True
      with pos Some show ?thesis by (intro failure) (simp add: createParlay_def)
    next
      case enough: False
      show ?thesis
      proof (cases "payout_loop (eventCache s) ls totalWager")
        case (Inl e)
        with pos Some enough show ?thesis by (intro failure) (simp add: createParlay_def)
      next
        case (Inr p)
        with pos Some enough show ?thesis
          by (intro success [of b p]) (simp_all add: createParlay_def Let_def)
      qed
    qed
  qed
qed

lemma createParlay_balances_nonneg:
  assumes "balances_nonneg s"
  shows "balances_nonneg (snd (createParlay newId newLegId uid ls totalWager s))"
proof (cases rule: createParlay_cases [of newId newLegId uid ls totalWager s])
  case (failure e)
  with assms show ?thesis by simp
next
  case (success b p)
  let ?s2 = "s\<lparr>sports_parlays := sports_parlays s @
                     [\<lparr>sp_parlay_id = newId, sp_user_id = uid, sp_total_wager = totalWager,
                       sp_potential_payout = p, sp_status = Pending\<rparr>],
                   parlay_legs := parlay_legs s @ leg_rows newLegId newId ls\<rparr>"
  have "balances_nonneg ?s2"
    using assms by (simp add: balances_nonneg_def)
  moreover have "\<And>c. user_balances ?s2 uid = Some c \<Longrightarrow> 0 \<le> c + (- totalWager)"
    using success(1,2) by simp
  ultimately have "balances_nonneg (update_balance uid (- totalWager) ?s2)"
    by (rule balances_nonneg_update)
  then show ?thesis
    unfolding success(5) by (simp add: balances_nonneg_def)
qed

lemma resolve_parlay_frame [simp]:
  "parlay_legs (resolve_parlay c s) = parlay_legs s"
  "eventCache (resolve_parlay c s) = eventCache s"
  "poker_tables (resolve_parlay c s) = poker_tables s"
  "poker_players (resolve_parlay c s) = poker_players s"
  "poker_hands (resolve_parlay c s) = poker_hands s"
  "sports_events (resolve_parlay c s) = sports_events s"
  "activeTables (resolve_parlay c s) = activeTables s"
  by (simp_all add: resolve_parlay_def Let_def split: prod.splits)



lemma createTable_eventCache:
  "eventCache (snd (createTable newId nm sb bb mp s)) = eventCache s"
  by (simp add: createTable_def Let_def)

lemma joinTable_eventCache:
  "eventCache (snd (joinTable tid uid buyIn s)) = eventCache s"
proof (cases "fst (joinTable tid uid buyIn s)")
  case (Inl e)
  then show ?thesis by (simp add: joinTable_failure_unchanged)
next
  case (Inr r)
  then obtain tbl b where
    "snd (joinTable tid uid buyIn s) =
       log_transaction uid Bet buyIn ''Poker table buy-in''
         (update_balance uid (- buyIn)
            (s\<lparr>poker_players := poker_players s @
                 [\<lparr>pp_table_id = tid, pp_user_id = uid, pp_stack = buyIn,
                   pp_position = ''under-the-gun'', pp_is_active = True,
                   pp_total_wins = 0\<rparr>]\<rparr>))"
    by (rule joinTable_success)
  then show ?thesis by simp
qed

lemma leaveTable_eventCache:
  "eventCache (snd (leaveTable tid uid cashOut s)) = eventCache s"
  by (simp add: leaveTable_def Let_def split: list.splits)

lemma createParlay_eventCache:
  "eventCache (snd (createParlay newId newLegId uid ls totalWager s)) = eventCache s"
proof (cases rule: createParlay_cases [of newId newLegId uid ls totalWager s])
  case (failure e)
  then show ?thesis by simp
next
  case (success b p)
  then show ?thesis by simp
qed

lemma none_completed_same:
  "eventCache s' = eventCache s \<Longrightarrow> none_completed s' = none_completed s"
  by (simp add: none_completed_def)

lemma resolveParlaysForEvent_none_completed:
  assumes "none_completed s"
  shows "resolveParlaysForEvent eid s = s"
proof (cases "eventCache s eid")
  case None
  then show ?thesis by (simp add: resolveParlaysForEvent_def)
next
  case (Some ev)
  with assms have "status ev \<noteq> Completed"
    by (simp add: none_completed_def)
  with Some show ?thesis
    by (rule resolveParlaysForEvent_not_completed)
qed

lemma updateEventScore_none_completed:
  assumes "none_completed s"
  shows "none_completed (snd (updateEventScore eid hs as s))"
proof (cases "eventCache s eid")
  case None
  with assms show ?thesis by (simp add: updateEventScore_def)
next
  case (Some ev)
  let ?ev' = "ev\<lparr>homeScore := Some hs, awayScore := Some as\<rparr>"
  let ?row = "case sports_events s eid of
                None \<Rightarrow> \<lparr>se_sport = sport ev, se_home_team = homeTeam ev,
                          se_away_team = awayTeam ev, se_home_score = hs,
                          se_away_score = as, se_status = InProgress\<rparr>
              | Some r \<Rightarrow> r\<lparr>se_home_score := hs, se_away_score := as, se_status := InProgress\<rparr>"
  let ?s2 = "s\<lparr>eventCache := (eventCache s)(eid \<mapsto> ?ev'),
               sports_events := (sports_events s)(eid \<mapsto> ?row)\<rparr>"
  from assms Some have "status ev \<noteq> Completed"
    by (simp add: none_completed_def)
  with assms have nc: "none_completed ?s2"
    by (auto simp: none_completed_def)
  then have "resolveParlaysForEvent eid ?s2 = ?s2"
    by (rule resolveParlaysForEvent_none_completed)
  with Some have "snd (updateEventScore eid hs as s) = ?s2"
    by (simp add: updateEventScore_def Let_def split: option.splits)
  with nc show ?thesis by simp
qed

lemma constructed_none_completed:
  assumes "eventCache s = initializeMockEvents (mockEvents now)"
  shows "none_completed s"
  unfolding none_completed_def assms
  by (auto simp: initializeMockEvents_def mockEvents_def split: if_splits)

lemma reachable_none_completed: "reachable s \<Longrightarrow> none_completed s"
proof (induction rule: reachable.induct)
  case (constructed s now)
  then show ?case by (rule constructed_none_completed)
next
  case (after_createTable s newId nm sb bb mp)
  then show ?case by (simp add: none_completed_same [OF createTable_eventCache])
next
  case (after_joinTable s tid uid buyIn)
  then show ?case by (simp add: none_completed_same [OF joinTable_eventCache])
next
  case (after_leaveTable s tid uid cashOut)
  then show ?case by (simp add: none_completed_same [OF leaveTable_eventCache])
next
  case (after_dealHand s newId tid)
  then show ?case by (simp add: dealHand_throws)
next
  case (after_completeHand s hid winnerId winningHand)
  then show ?case by (simp add: completeHand_throws)
next
  case (after_createParlay s newId newLegId uid ls totalWager)
  then show ?case by (simp add: none_completed_same [OF createParlay_eventCache])
next
  case (after_updateEventScore s eid hs as)
  from after_updateEventScore.IH show ?case by (rule updateEventScore_none_completed)
next
  case (after_resolveParlaysForEvent s eid)
  then show ?case by (simp add: resolveParlaysForEvent_none_completed)
qed

lemma opened_store_eval:
  "poker_tables opened_store =
     [\<lparr>pt_table_id = ''t1'', pt_name = ''Main'', pt_small_blind = 5, pt_big_blind = 10,
       pt_max_players = 6, pt_min_buy_in = 200, pt_max_buy_in = 5000, pt_status = Open\<rparr>]"
  "poker_players opened_store = []"
  "user_balances opened_store = [7 \<mapsto> 1000]"
  by (simp_all add: opened_store_def constructed_store_def createTable_def Let_def
      empty_store_def to_double_200 to_double_5000)

lemma seated_store_eval:
  "fst (joinTable ''t1'' 7 200 opened_store) = Inr True"
  "poker_players seated_store =
     [\<lparr>pp_table_id = ''t1'', pp_user_id = 7, pp_stack = 200, pp_position = ''under-the-gun'',
       pp_is_active = True, pp_total_wins = 0\<rparr>]"
  "user_balances seated_store = [7 \<mapsto> 800]"
  by (simp_all add: seated_store_def joinTable_def Let_def opened_store_eval
      active_player_count_def update_balance_balances)

lemma reachable_stores:
  "reachable constructed_store" "reachable opened_store" "reachable seated_store"
proof -
  show c: "reachable constructed_store"
    by (rule reachable.constructed [where now = 0]) (simp add: constructed_store_def)
  then show o: "reachable opened_store"
    unfolding opened_store_def by (rule reachable.after_createTable)
  then show "reachable seated_store"
    unfolding seated_store_def by (rule reachable.after_joinTable)
qed

text \<open>
  Claim C1. In every reachable state in which every balance is non-negative, each of
  \<open>joinTable\<close>, \<open>leaveTable\<close> with a non-negative cash-out, \<open>createParlay\<close>,
  \<open>completeHand\<close> and \<open>resolveParlaysForEvent\<close> leaves every balance non-negative. The
  two debits are made only after the balance has been checked to be at least the
  amount; \<open>leaveTable\<close> credits the cash-out; \<open>completeHand\<close> fails before it credits
  anything; and since no method ever sets the status of a cached event, no event is
  completed in a reachable state and \<open>resolveParlaysForEvent\<close> returns at once.
\<close>

theorem reachable_balances_stay_nonneg:
  assumes "reachable s" and "balances_nonneg s" and "cash_out_nonneg op"
  shows "balances_nonneg (run op s)"
proof (cases op)
  case (JoinTable tid uid buyIn)
  with assms show ?thesis by (simp add: joinTable_balances_nonneg)
next
  case (LeaveTable tid uid cashOut)
  with assms show ?thesis by (simp add: leaveTable_balances_nonneg)
next
  case (CreateParlay newId newLegId uid ls totalWager)
  with assms show ?thesis by (simp add: createParlay_balances_nonneg)
next
  case (CompleteHand hid winnerId winningHand)
  with assms show ?thesis by (simp add: completeHand_throws)
next
  case (ResolveParlaysForEvent eid)
  from assms(1) have "none_completed s"
    by (rule reachable_none_completed)
  with ResolveParlaysForEvent assms(2) show ?thesis
    by (simp add: resolveParlaysForEvent_none_completed)
qed

theorem reachable_balances_stay_nonneg_witness:
  "reachable opened_store
   \<and> balances_nonneg opened_store
   \<and> cash_out_nonneg (JoinTable ''t1'' 7 200)
   \<and> user_balances opened_store 7 = Some 1000
   \<and> user_balances (run (JoinTable ''t1'' 7 200) opened_store) 7 = Some 800
   \<and> balances_nonneg (run (JoinTable ''t1'' 7 200) opened_store)
   \<and> reachable seated_store
   \<and> balances_nonneg seated_store
   \<and> cash_out_nonneg (LeaveTable ''t1'' 7 150)
   \<and> user_balances (run (LeaveTable ''t1'' 7 150) seated_store) 7 = Some 950
   \<and> balances_nonneg (run (LeaveTable ''t1'' 7 150) seated_store)
   \<and> balances_nonneg (run (CompleteHand ''h1'' 7 ''flush'') seated_store)
   \<and> balances_nonneg (run (ResolveParlaysForEvent ''nfl_001'') seated_store)"
proof -
  have ob: "balances_nonneg opened_store"
    by (simp add: balances_nonneg_def opened_store_eval)
  have sb: "balances_nonneg seated_store"
    by (simp add: balances_nonneg_def seated_store_eval)
  have j: "user_balances (run (JoinTable ''t1'' 7 200) opened_store) 7 = Some 800"
    using seated_store_eval(3) by (simp add: seated_store_def)
  have l: "user_balances (run (LeaveTable ''t1'' 7 150) seated_store) 7 = Some 950"
    by (simp add: leaveTable_def Let_def seated_store_eval update_balance_balances)
  from reachable_balances_stay_nonneg [OF reachable_stores(2) ob, of "JoinTable ''t1'' 7 200"]
    reachable_balances_stay_nonneg [OF reachable_stores(3) sb, of "LeaveTable ''t1'' 7 150"]
    reachable_balances_stay_nonneg [OF reachable_stores(3) sb, of "CompleteHand ''h1'' 7 ''flush''"]
    reachable_balances_stay_nonneg [OF reachable_stores(3) sb,
      of "ResolveParlaysForEvent ''nfl_001''"]
    reachable_stores ob sb j l
  show ?thesis
    by (simp add: opened_store_eval)
qed

section \<open>Resolving the parlays of an event twice\<close>

lemma legs_of_parlay_by_ids:
  "legs_of_parlay pid s =
     [pl. pl \<leftarrow> parlay_legs s, i \<leftarrow> map sp_parlay_id (sports_parlays s),
          pl_parlay_id pl = i, pl_parlay_id pl = pid]"
  by (simp add: legs_of_parlay_def map_map comp_def)

lemma legs_of_parlay_same:
  assumes "parlay_legs s' = parlay_legs s"
    and "map sp_parlay_id (sports_parlays s') = map sp_parlay_id (sports_parlays s)"
  shows "legs_of_parlay pid s' = legs_of_parlay pid s"
  using assms by (simp only: legs_of_parlay_by_ids)

lemma resolve_parlay_ids:
  "map sp_parlay_id (sports_parlays (resolve_parlay c s)) = map sp_parlay_id (sports_parlays s)"
  by (cases c) (simp add: resolve_parlay_def Let_def comp_def)

lemma legs_of_parlay_resolve_parlay [simp]:
  "legs_of_parlay pid (resolve_parlay c s) = legs_of_parlay pid s"
  by (rule legs_of_parlay_same) (simp_all add: resolve_parlay_ids)

lemma parlay_wins_resolve_parlay [simp]:
  "parlay_wins (resolve_parlay c s) c' = parlay_wins s c'"
  by (simp add: parlay_wins_def)









lemma fold_resolve_parlay_eventCache [simp]:
  "eventCache (fold resolve_parlay cs s) = eventCache s"
  by (induction cs arbitrary: s) simp_all


lemma payout_to_Nil [simp]: "payout_to u s [] = 0"
  by (simp add: payout_to_def)


lemma payout_to_resolve_parlay [simp]:
  "payout_to u (resolve_parlay c s) cs = payout_to u s cs"
  by (simp add: payout_to_def)




end
